theory Spec2Isabelle
  imports Main "HOL-Library.Word"
begin

section \<open>Data model of the Qubole Hive execution state machine\<close>

text \<open>
  The Go type \<open>int\<close> is a 64-bit two's complement integer on the platforms the plugin
  runs on: it is a \<open>64 word\<close>, read with \<open>sint\<close>, and \<open>+\<close> wraps around.
  \<open>uint32\<close> is a \<open>32 word\<close>. A \<open>time.Time\<close> is abstracted to the number of
  nanoseconds since the zero instant, so that \<open>IsZero\<close> is the comparison with 0.
\<close>

type_synonym int64 = "64 word"
type_synonym uint32 = "32 word"
type_synonym Time = int

definition IsZero :: "Time \<Rightarrow> bool" where
  "IsZero t = (t = 0)"

subsection \<open>ExecutionPhase: an int with five named constants\<close>

type_synonym ExecutionPhase = int64

definition PhaseNotStarted :: ExecutionPhase where "PhaseNotStarted = 0"
definition PhaseQueued :: ExecutionPhase where "PhaseQueued = 1"
definition PhaseSubmitted :: ExecutionPhase where "PhaseSubmitted = 2"
definition PhaseQuerySucceeded :: ExecutionPhase where "PhaseQuerySucceeded = 3"
definition PhaseQueryFailed :: ExecutionPhase where "PhaseQueryFailed = 4"

definition String_phase :: "ExecutionPhase \<Rightarrow> string" where
  "String_phase p =
     (if p = PhaseNotStarted then ''PhaseNotStarted''
      else if p = PhaseQueued then ''PhaseQueued''
      else if p = PhaseSubmitted then ''PhaseSubmitted''
      else if p = PhaseQuerySucceeded then ''PhaseQuerySucceeded''
      else if p = PhaseQueryFailed then ''PhaseQueryFailed''
      else ''Bad Qubole execution phase'')"

subsection \<open>ExecutionState\<close>

record ExecutionState =
  Phase :: ExecutionPhase
  CommandId :: string
  URI :: string
  SyncFailureCount :: int64
  CreationFailureCount :: int64
  AllocationTokenRequestStartTime :: Time

text \<open>The value of the Go composite literal \<open>ExecutionState{}\<close>.\<close>

definition zeroExecutionState :: ExecutionState where
  "zeroExecutionState =
     \<lparr>Phase = 0, CommandId = [], URI = [], SyncFailureCount = 0,
      CreationFailureCount = 0, AllocationTokenRequestStartTime = 0\<rparr>"

text \<open>
  The cache stores values of the interface type \<open>cache.Item\<close>; the plugin stores
  \<open>ExecutionStateCacheItem\<close> values there and casts what it reads back.
\<close>

record ExecutionStateCacheItem =
  ItemState :: ExecutionState
  ItemId :: string

datatype Item = StateItem ExecutionStateCacheItem | OtherItem string

subsection \<open>Errors\<close>

text \<open>
  The error kinds of the \<open>errors\<close> package that this file uses, and the two ways it
  attaches one: \<open>Errorf code format\<close> and \<open>Wrapf code cause format\<close>. An error
  that a collaborator made without that package is \<open>External\<close>. Only the format string
  of a message is kept.
\<close>

datatype ErrorCode =
  BadTaskSpecification | ResourceManagerFailure | CacheFailed | RuntimeFailure
  | DownstreamSystemError

datatype error =
  External string
  | Errorf ErrorCode string
  | Wrapf ErrorCode error string

fun GetErrorCode :: "error \<Rightarrow> ErrorCode option" where
  "GetErrorCode (External m) = None"
| "GetErrorCode (Errorf c m) = Some c"
| "GetErrorCode (Wrapf c cause m) = Some c"

subsection \<open>Task payload and configuration\<close>

record HiveQuery =
  QueryText :: string
  TimeoutSec :: uint32
  RetryCount :: uint32

record QuboleHiveJob =
  ClusterLabel :: string
  Tags :: "string list"
  Query :: "HiveQuery option"

type_synonym Struct = string

record TaskTemplate =
  Custom :: Struct

record ClusterConfig =
  PrimaryLabel :: string
  Labels :: "string list"

record DestinationClusterConfig =
  Project :: string
  Domain :: string
  DestClusterLabel :: string

record Config =
  ClusterConfigs :: "ClusterConfig list"
  DestinationClusterConfigs :: "DestinationClusterConfig list"
  TokenKey :: string

text \<open>
  The allocation statuses are constants of the package \<open>core\<close>, declared outside this
  file. The code compares a status with three of them; \<open>AllocationStatusOther\<close> is any
  value that is none of the three.
\<close>

datatype AllocationStatus =
  AllocationStatusGranted | AllocationStatusExhausted
  | AllocationStatusNamespaceQuotaExceeded | AllocationStatusOther string

record QuboleCommandDetails =
  ID :: int64
  DetailsURI :: string

subsection \<open>Collaborators\<close>

text \<open>
  Each collaborator is called at most once in one invocation, so it is the function that
  gives its answer from its arguments. The calls that change something outside the
  plugin are returned by every operation, in the order they are made.
\<close>

datatype Call =
  AllocateResourceCall string string
  | ReleaseResourceCall string string
  | ExecuteHiveCommandCall string uint32 string string "string list"
  | KillCommandCall string string
  | GetOrCreateCall string Item

record TaskExecutionContext =
  GeneratedName :: string
  Namespace :: string
  GetLabels :: "(string \<times> string) list"
  ExecProject :: string
  ExecDomain :: string
  TaskReaderRead :: "error + TaskTemplate"
  AllocateResource :: "string \<Rightarrow> string \<Rightarrow> error + AllocationStatus"
  ReleaseResource :: "string \<Rightarrow> string \<Rightarrow> error option"
  SecretManagerGet :: "string \<Rightarrow> error + string"

record QuboleClient =
  ExecuteHiveCommand ::
    "string \<Rightarrow> uint32 \<Rightarrow> string \<Rightarrow> string \<Rightarrow> string list \<Rightarrow> error + QuboleCommandDetails"
  KillCommand :: "string \<Rightarrow> string \<Rightarrow> error option"

type_synonym AutoRefresh = "string \<Rightarrow> Item \<Rightarrow> error + Item"

text \<open>
  What the code reads from its surroundings rather than from its arguments: the global
  configuration \<open>config.GetQuboleConfig()\<close>, the clock, the decoder
  \<open>utils.UnmarshalStruct\<close> and the constant \<open>DefaultClusterPrimaryLabel\<close>, both
  declared outside this file.
\<close>

record Ambient =
  GetQuboleConfig :: Config
  Now :: Time
  UnmarshalStruct :: "Struct \<Rightarrow> error + QuboleHiveJob"
  DefaultClusterPrimaryLabel :: string

section \<open>Phase projection\<close>

record TaskLog =
  LogName :: string
  LogUri :: string

record TaskInfo =
  Logs :: "TaskLog list"
  OccurredAt :: Time

text \<open>
  The constructors of \<open>core.PhaseInfo\<close> are declared outside this file; a phase info is
  the constructor applied to its arguments. \<open>PhaseInfoUndefined\<close> is the zero value of
  the declaration \<open>var phaseInfo core.PhaseInfo\<close>.
\<close>

datatype PhaseInfo =
  PhaseInfoUndefined
  | PhaseInfoNotReady Time uint32 string
  | PhaseInfoQueued Time uint32 string
  | PhaseInfoSystemRetryableFailure string string "TaskInfo option"
  | PhaseInfoRunning uint32 "TaskInfo option"
  | PhaseInfoSuccess "TaskInfo option"
  | PhaseInfoFailure ErrorCode string "TaskInfo option"

definition DefaultPhaseVersion :: uint32 where
  "DefaultPhaseVersion = 0"

definition ConstructTaskLog :: "ExecutionState \<Rightarrow> TaskLog" where
  "ConstructTaskLog e =
     \<lparr>LogName = ''Status: '' @ String_phase (Phase e) @ '' ['' @ CommandId e @ '']'',
      LogUri = URI e\<rparr>"

definition ConstructTaskInfo :: "Time \<Rightarrow> ExecutionState \<Rightarrow> TaskInfo option" where
  "ConstructTaskInfo t e =
     (if CommandId e \<noteq> [] then Some \<lparr>Logs = [ConstructTaskLog e], OccurredAt = t\<rparr>
      else None)"

text \<open>
  The projector reads the clock once (\<open>t\<close>) and \<open>ConstructTaskInfo\<close> reads it again
  (\<open>t'\<close>).
\<close>

definition MapExecutionStateToPhaseInfo :: "Time \<Rightarrow> Time \<Rightarrow> ExecutionState \<Rightarrow> PhaseInfo" where
  "MapExecutionStateToPhaseInfo t t' state =
     (if Phase state = PhaseNotStarted then
        PhaseInfoNotReady t DefaultPhaseVersion ''Haven't received allocation token''
      else if Phase state = PhaseQueued then
        (if 5 <s CreationFailureCount state then
           PhaseInfoSystemRetryableFailure ''QuboleFailure'' ''Too many creation attempts'' None
         else PhaseInfoQueued t (ucast (CreationFailureCount state)) ''Waiting for Qubole launch'')
      else if Phase state = PhaseSubmitted then
        PhaseInfoRunning DefaultPhaseVersion (ConstructTaskInfo t' state)
      else if Phase state = PhaseQuerySucceeded then
        PhaseInfoSuccess (ConstructTaskInfo t' state)
      else if Phase state = PhaseQueryFailed then
        PhaseInfoFailure DownstreamSystemError ''Query failed'' (ConstructTaskInfo t' state)
      else PhaseInfoUndefined)"

section \<open>Query information and the resource namespace\<close>

definition validateQuboleHiveJob :: "QuboleHiveJob \<Rightarrow> error option" where
  "validateQuboleHiveJob hiveJob =
     (if Query hiveJob = None then
        Some (Errorf BadTaskSpecification
          ''Query could not be found. Please ensure that you are at least on Flytekit version 0.3.0 or later.'')
      else None)"

text \<open>
  The getters on the query pointer. After \<open>validateQuboleHiveJob\<close> the pointer is not
  nil, so the \<open>None\<close> cases are never taken by \<open>GetQueryInfo\<close>.
\<close>

definition GetQuery :: "HiveQuery option \<Rightarrow> string" where
  "GetQuery q = (case q of None \<Rightarrow> [] | Some h \<Rightarrow> QueryText h)"

definition GetTimeoutSec :: "HiveQuery option \<Rightarrow> uint32" where
  "GetTimeoutSec q = (case q of None \<Rightarrow> 0 | Some h \<Rightarrow> TimeoutSec h)"

text \<open>
  The result is (query, cluster, tags, timeoutSec). The labels of the task are a Go map;
  \<open>GetLabels\<close> lists them in the order the \<open>range\<close> loop visits them.
\<close>

definition GetQueryInfo ::
  "Ambient \<Rightarrow> TaskExecutionContext \<Rightarrow> error + (string \<times> string \<times> string list \<times> uint32)" where
  "GetQueryInfo amb tCtx =
     (case TaskReaderRead tCtx of
        Inl err \<Rightarrow> Inl err
      | Inr taskTemplate \<Rightarrow>
          (case UnmarshalStruct amb (Custom taskTemplate) of
             Inl err \<Rightarrow> Inl err
           | Inr hiveJob \<Rightarrow>
               (case validateQuboleHiveJob hiveJob of
                  Some err \<Rightarrow> Inl err
                | None \<Rightarrow>
                    Inr (GetQuery (Query hiveJob), ClusterLabel hiveJob,
                         Tags hiveJob @ [''ns:'' @ Namespace tCtx]
                           @ map (\<lambda>(k, v). k @ '':'' @ v) (GetLabels tCtx),
                         GetTimeoutSec (Query hiveJob)))))"

text \<open>
  The inner loop of \<open>mapLabelToPrimaryLabel\<close> over the labels of one cluster: it stops
  at the first label equal to the input and sets the pair (primaryLabel, found).
\<close>

fun labelsLoop :: "string \<Rightarrow> string \<Rightarrow> string list \<Rightarrow> string \<times> bool \<Rightarrow> string \<times> bool" where
  "labelsLoop label primary [] acc = acc"
| "labelsLoop label primary (l # ls) acc =
     (if label \<noteq> [] \<and> l = label then (primary, True)
      else labelsLoop label primary ls acc)"

text \<open>The outer loop: the \<open>break\<close> leaves the inner loop only, so every cluster is visited.\<close>

fun clustersLoop :: "string \<Rightarrow> ClusterConfig list \<Rightarrow> string \<times> bool \<Rightarrow> string \<times> bool" where
  "clustersLoop label [] acc = acc"
| "clustersLoop label (clusterCfg # rest) acc =
     clustersLoop label rest (labelsLoop label (PrimaryLabel clusterCfg) (Labels clusterCfg) acc)"

definition mapLabelToPrimaryLabel :: "Ambient \<Rightarrow> Config \<Rightarrow> string \<Rightarrow> string \<times> bool" where
  "mapLabelToPrimaryLabel amb quboleCfg label =
     (if label = [] then (DefaultClusterPrimaryLabel amb, False)
      else clustersLoop label (ClusterConfigs quboleCfg) (DefaultClusterPrimaryLabel amb, False))"

fun destinationLoop :: "string \<Rightarrow> string \<Rightarrow> DestinationClusterConfig list \<Rightarrow> string \<times> bool" where
  "destinationLoop project domain [] = ([], False)"
| "destinationLoop project domain (m # ms) =
     (if project = Project m \<and> domain = Domain m then (DestClusterLabel m, True)
      else destinationLoop project domain ms)"

definition mapProjectDomainToDestinationClusterLabel ::
  "TaskExecutionContext \<Rightarrow> Config \<Rightarrow> string \<times> bool" where
  "mapProjectDomainToDestinationClusterLabel tCtx quboleCfg =
     destinationLoop (ExecProject tCtx) (ExecDomain tCtx) (DestinationClusterConfigs quboleCfg)"

definition getClusterPrimaryLabel :: "Ambient \<Rightarrow> TaskExecutionContext \<Rightarrow> string \<Rightarrow> string" where
  "getClusterPrimaryLabel amb tCtx clusterLabelOverride =
     (let cfg = GetQuboleConfig amb in
      if clusterLabelOverride \<noteq> []
         \<and> snd (mapLabelToPrimaryLabel amb cfg clusterLabelOverride)
      then fst (mapLabelToPrimaryLabel amb cfg clusterLabelOverride)
      else (case mapProjectDomainToDestinationClusterLabel tCtx cfg of
              (clusterLabel, True) \<Rightarrow> fst (mapLabelToPrimaryLabel amb cfg clusterLabel)
            | (clusterLabel, False) \<Rightarrow> DefaultClusterPrimaryLabel amb))"

definition composeResourceNamespaceWithClusterPrimaryLabel ::
  "Ambient \<Rightarrow> TaskExecutionContext \<Rightarrow> error + string" where
  "composeResourceNamespaceWithClusterPrimaryLabel amb tCtx =
     (case GetQueryInfo amb tCtx of
        Inl err \<Rightarrow> Inl err
      | Inr (query, clusterLabelOverride, tags, timeoutSec) \<Rightarrow>
          Inr (getClusterPrimaryLabel amb tCtx clusterLabelOverride))"

section \<open>The transitions\<close>

text \<open>\<open>strconv.FormatInt(i, 10)\<close>: the decimal digits, with a minus sign below zero.\<close>

fun decimal :: "nat \<Rightarrow> string" where
  "decimal n =
     (if n < 10 then [char_of (48 + n)]
      else decimal (n div 10) @ [char_of (48 + n mod 10)])"

definition FormatInt :: "int64 \<Rightarrow> string" where
  "FormatInt i =
     (if sint i < 0 then CHR ''-'' # decimal (nat (- sint i)) else decimal (nat (sint i)))"

text \<open>
  Every transition returns the new state, the error (\<open>None\<close> is Go's nil) and the calls
  it made. Logging and the wait-time metric are left out.
\<close>

type_synonym Outcome = "ExecutionState \<times> error option \<times> Call list"

definition GetAllocationToken ::
  "Ambient \<Rightarrow> TaskExecutionContext \<Rightarrow> ExecutionState \<Rightarrow> Outcome" where
  "GetAllocationToken amb tCtx currentState =
     (let newState = zeroExecutionState;
          uniqueId = GeneratedName tCtx
      in case composeResourceNamespaceWithClusterPrimaryLabel amb tCtx of
           Inl err \<Rightarrow>
             (newState,
              Some (Wrapf ResourceManagerFailure err
                ''Error getting query info when requesting allocation token %s''),
              [])
         | Inr clusterPrimaryLabel \<Rightarrow>
             (let calls = [AllocateResourceCall clusterPrimaryLabel uniqueId]
              in case AllocateResource tCtx clusterPrimaryLabel uniqueId of
                   Inl err \<Rightarrow>
                     (newState,
                      Some (Wrapf ResourceManagerFailure err
                        ''Error requesting allocation token %s''),
                      calls)
                 | Inr allocationStatus \<Rightarrow>
                     (let newState = newState
                            \<lparr>AllocationTokenRequestStartTime :=
                               (if IsZero (AllocationTokenRequestStartTime currentState)
                                then Now amb
                                else AllocationTokenRequestStartTime currentState)\<rparr>
                      in if allocationStatus = AllocationStatusGranted then
                           (newState\<lparr>Phase := PhaseQueued\<rparr>, None, calls)
                         else if allocationStatus = AllocationStatusExhausted then
                           (newState\<lparr>Phase := PhaseNotStarted\<rparr>, None, calls)
                         else if allocationStatus = AllocationStatusNamespaceQuotaExceeded then
                           (newState\<lparr>Phase := PhaseNotStarted\<rparr>, None, calls)
                         else
                           (newState,
                            Some (Errorf ResourceManagerFailure
                              ''Got bad allocation result [%s] for token [%s]''),
                            calls))))"

definition KickOffQuery ::
  "Ambient \<Rightarrow> TaskExecutionContext \<Rightarrow> ExecutionState \<Rightarrow> QuboleClient \<Rightarrow> AutoRefresh \<Rightarrow> Config
     \<Rightarrow> Outcome" where
  "KickOffQuery amb tCtx currentState quboleClient cache cfg =
     (let uniqueId = GeneratedName tCtx
      in case SecretManagerGet tCtx (TokenKey cfg) of
           Inl err \<Rightarrow>
             (currentState,
              Some (Wrapf RuntimeFailure err ''Failed to read token from secrets manager''),
              [])
         | Inr apiKey \<Rightarrow>
             (case GetQueryInfo amb tCtx of
                Inl err \<Rightarrow> (currentState, Some err, [])
              | Inr (query, clusterLabelOverride, tags, timeoutSec) \<Rightarrow>
                  (let clusterPrimaryLabel = getClusterPrimaryLabel amb tCtx clusterLabelOverride;
                       created = ExecuteHiveCommandCall query timeoutSec clusterPrimaryLabel apiKey tags
                   in case ExecuteHiveCommand quboleClient query timeoutSec clusterPrimaryLabel
                             apiKey tags of
                        Inl err \<Rightarrow>
                          (currentState
                             \<lparr>CreationFailureCount := CreationFailureCount currentState + 1\<rparr>,
                           None, [created])
                      | Inr cmdDetails \<Rightarrow>
                          (let commandId = FormatInt (ID cmdDetails);
                               currentState = currentState
                                 \<lparr>CommandId := commandId, Phase := PhaseSubmitted,
                                  URI := DetailsURI cmdDetails\<rparr>;
                               executionStateCacheItem =
                                 StateItem \<lparr>ItemState = currentState, ItemId = uniqueId\<rparr>;
                               calls = [created, GetOrCreateCall uniqueId executionStateCacheItem]
                           in case cache uniqueId executionStateCacheItem of
                                Inl err \<Rightarrow> (currentState, Some err, calls)
                              | Inr cached \<Rightarrow> (currentState, None, calls)))))"

definition MonitorQuery ::
  "TaskExecutionContext \<Rightarrow> ExecutionState \<Rightarrow> AutoRefresh \<Rightarrow> Outcome" where
  "MonitorQuery tCtx currentState cache =
     (let uniqueId = GeneratedName tCtx;
          executionStateCacheItem = StateItem \<lparr>ItemState = currentState, ItemId = uniqueId\<rparr>;
          calls = [GetOrCreateCall uniqueId executionStateCacheItem]
      in case cache uniqueId executionStateCacheItem of
           Inl err \<Rightarrow>
             (currentState,
              Some (Wrapf CacheFailed err ''Error when GetOrCreate while monitoring''),
              calls)
         | Inr cachedItem \<Rightarrow>
             (case cachedItem of
                OtherItem x \<Rightarrow>
                  (currentState, Some (Errorf CacheFailed ''Failed to cast [%v]''), calls)
              | StateItem cachedExecutionState \<Rightarrow>
                  (ItemState cachedExecutionState, None, calls)))"

text \<open>A Go \<open>switch\<close> without a default: no case runs for a phase outside the five constants.\<close>

definition HandleExecutionState ::
  "Ambient \<Rightarrow> TaskExecutionContext \<Rightarrow> ExecutionState \<Rightarrow> QuboleClient \<Rightarrow> AutoRefresh \<Rightarrow> Config
     \<Rightarrow> Outcome" where
  "HandleExecutionState amb tCtx currentState quboleClient executionsCache cfg =
     (if Phase currentState = PhaseNotStarted then
        GetAllocationToken amb tCtx currentState
      else if Phase currentState = PhaseQueued then
        KickOffQuery amb tCtx currentState quboleClient executionsCache cfg
      else if Phase currentState = PhaseSubmitted then
        MonitorQuery tCtx currentState executionsCache
      else if Phase currentState = PhaseQuerySucceeded then (currentState, None, [])
      else if Phase currentState = PhaseQueryFailed then (currentState, None, [])
      else (zeroExecutionState, None, []))"

section \<open>Lifecycle hooks\<close>

definition InTerminalState :: "ExecutionState \<Rightarrow> bool" where
  "InTerminalState e = (Phase e = PhaseQuerySucceeded \<or> Phase e = PhaseQueryFailed)"

definition IsNotYetSubmitted :: "ExecutionState \<Rightarrow> bool" where
  "IsNotYetSubmitted e = (if Phase e = PhaseNotStarted \<or> Phase e = PhaseQueued then True else False)"

text \<open>Abort and Finalize return the error and the calls they made.\<close>

definition Abort :: "ExecutionState \<Rightarrow> QuboleClient \<Rightarrow> string \<Rightarrow> error option \<times> Call list" where
  "Abort currentState qubole apiKey =
     (if \<not> InTerminalState currentState \<and> CommandId currentState \<noteq> [] then
        (case KillCommand qubole (CommandId currentState) apiKey of
           Some err \<Rightarrow> (Some err, [KillCommandCall (CommandId currentState) apiKey])
         | None \<Rightarrow> (None, [KillCommandCall (CommandId currentState) apiKey]))
      else (None, []))"

definition Finalize ::
  "Ambient \<Rightarrow> TaskExecutionContext \<Rightarrow> ExecutionState \<Rightarrow> error option \<times> Call list" where
  "Finalize amb tCtx unused =
     (let uniqueId = GeneratedName tCtx
      in case composeResourceNamespaceWithClusterPrimaryLabel amb tCtx of
           Inl err \<Rightarrow>
             (Some (Wrapf ResourceManagerFailure err
                ''Error getting query info when releasing allocation token %s''),
              [])
         | Inr clusterPrimaryLabel \<Rightarrow>
             (case ReleaseResource tCtx clusterPrimaryLabel uniqueId of
                Some err \<Rightarrow> (Some err, [ReleaseResourceCall clusterPrimaryLabel uniqueId])
              | None \<Rightarrow> (None, [ReleaseResourceCall clusterPrimaryLabel uniqueId])))"

text \<open>The number of times the admission token is released among some calls.\<close>

fun releases :: "Call list \<Rightarrow> nat" where
  "releases [] = 0"
| "releases (ReleaseResourceCall ns tok # cs) = Suc (releases cs)"
| "releases (c # cs) = releases cs"

fun kills :: "Call list \<Rightarrow> nat" where
  "kills [] = 0"
| "kills (KillCommandCall cmd key # cs) = Suc (kills cs)"
| "kills (c # cs) = kills cs"

section \<open>Iterating the state machine\<close>

text \<open>
  One reconciliation tick is \<open>HandleExecutionState\<close> in the surroundings of that tick;
  \<open>iterateHandle\<close> runs the ticks of a list, each on the state the one before returned.
\<close>

type_synonym Surroundings =
  "Ambient \<times> TaskExecutionContext \<times> QuboleClient \<times> AutoRefresh \<times> Config"

fun iterateHandle :: "Surroundings list \<Rightarrow> ExecutionState \<Rightarrow> ExecutionState" where
  "iterateHandle [] s = s"
| "iterateHandle ((amb, tCtx, quboleClient, cache, cfg) # rest) s =
     iterateHandle rest (fst (HandleExecutionState amb tCtx s quboleClient cache cfg))"

text \<open>A tick in which the secret and the query are read and the backend refuses to create.\<close>

definition createFails :: "Surroundings \<Rightarrow> bool" where
  "createFails e =
     (case e of (amb, tCtx, quboleClient, cache, cfg) \<Rightarrow>
        (case SecretManagerGet tCtx (TokenKey cfg) of
           Inl err \<Rightarrow> False
         | Inr apiKey \<Rightarrow>
             (case GetQueryInfo amb tCtx of
                Inl err \<Rightarrow> False
              | Inr (query, clusterLabelOverride, tags, timeoutSec) \<Rightarrow>
                  (case ExecuteHiveCommand quboleClient query timeoutSec
                          (getClusterPrimaryLabel amb tCtx clusterLabelOverride) apiKey tags of
                     Inl err \<Rightarrow> True
                   | Inr cmdDetails \<Rightarrow> False))))"

subsection \<open>The cache between the ticks\<close>

text \<open>
  Modelled from the spec: the shared auto-refresh cache is a collaborator whose code is
  not among the sources. Its contract (section 4.4) is: the first \<open>GetOrCreate\<close> for an
  id stores the seed and returns it, later ones return the stored value; a call may fail
  with an error, and then nothing is stored.
\<close>

type_synonym Store = "string \<Rightarrow> Item option"

definition storeGetOrCreate :: "error option \<Rightarrow> Store \<Rightarrow> AutoRefresh" where
  "storeGetOrCreate failure store itemId item =
     (case failure of
        Some err \<Rightarrow> Inl err
      | None \<Rightarrow> (case store itemId of Some found \<Rightarrow> Inr found | None \<Rightarrow> Inr item))"

fun storeAfter :: "error option \<Rightarrow> Store \<Rightarrow> Call list \<Rightarrow> Store" where
  "storeAfter failure store [] = store"
| "storeAfter failure store (GetOrCreateCall itemId item # cs) =
     storeAfter failure
       (if failure = None \<and> store itemId = None then store(itemId := Some item) else store) cs"
| "storeAfter failure store (c # cs) = storeAfter failure store cs"

text \<open>
  Modelled from the spec: the background refresh of a cached entry (the sync function of
  the executions cache is not among the sources). It writes an updated state back under
  the same key (section 4.2); the command id is immutable once set (section 3), every
  other field may change.
\<close>

definition refreshed :: "ExecutionStateCacheItem \<Rightarrow> ExecutionStateCacheItem \<Rightarrow> bool" where
  "refreshed old new =
     (ItemId new = ItemId old \<and> CommandId (ItemState new) = CommandId (ItemState old))"

record World =
  Persisted :: ExecutionState
  CacheStore :: Store

text \<open>
  The worlds of the task with the generated name \<open>uid\<close>: it starts in the zero state
  (phase NotStarted) with no cache entry; a tick replaces the state by the one
  \<open>HandleExecutionState\<close> returns, whatever the collaborators answer, and stores what
  the tick created in the cache; a refresh updates the cached entry. A tick whose state
  the orchestrator drops because of an error leaves the world as it is.
\<close>

inductive reachable :: "string \<Rightarrow> World \<Rightarrow> bool" for uid :: string where
  initial: "store uid = None \<Longrightarrow>
     reachable uid \<lparr>Persisted = zeroExecutionState, CacheStore = store\<rparr>"
| tick: "reachable uid w \<Longrightarrow> GeneratedName tCtx = uid \<Longrightarrow>
     HandleExecutionState amb tCtx (Persisted w) quboleClient
       (storeGetOrCreate failure (CacheStore w)) cfg = (s', err, calls) \<Longrightarrow>
     reachable uid \<lparr>Persisted = s', CacheStore = storeAfter failure (CacheStore w) calls\<rparr>"
| refresh: "reachable uid w \<Longrightarrow> CacheStore w uid = Some (StateItem old) \<Longrightarrow>
     refreshed old new \<Longrightarrow>
     reachable uid (w\<lparr>CacheStore := (CacheStore w)(uid := Some (StateItem new))\<rparr>)"

section \<open>The namespace precedence in the words of the specification\<close>

text \<open>
  A label maps to a primary label when it is not empty and some cluster of the
  configuration lists it; where several clusters list it, the last one gives the
  primary label. A (project, domain) pair maps to the cluster label of the first entry
  of the destination table with that project and domain. The resource namespace is the
  primary label of the override label if it maps to one; else the primary label of the
  label of the (project, domain) pair; else the fixed default.
\<close>

definition spec_primaryLabel :: "Config \<Rightarrow> string \<Rightarrow> string option" where
  "spec_primaryLabel cfg label =
     (if label = [] then None
      else case filter (\<lambda>c. label \<in> set (Labels c)) (ClusterConfigs cfg) of
             [] \<Rightarrow> None
           | c # cs \<Rightarrow> Some (PrimaryLabel (last (c # cs))))"

definition spec_destinationLabel :: "Config \<Rightarrow> string \<Rightarrow> string \<Rightarrow> string option" where
  "spec_destinationLabel cfg project domain =
     map_option DestClusterLabel
       (find (\<lambda>m. project = Project m \<and> domain = Domain m) (DestinationClusterConfigs cfg))"

definition spec_resourceNamespace :: "Ambient \<Rightarrow> TaskExecutionContext \<Rightarrow> string \<Rightarrow> string" where
  "spec_resourceNamespace amb tCtx override =
     (case spec_primaryLabel (GetQuboleConfig amb) override of
        Some primary \<Rightarrow> primary
      | None \<Rightarrow>
          (case spec_destinationLabel (GetQuboleConfig amb) (ExecProject tCtx) (ExecDomain tCtx) of
             Some label \<Rightarrow>
               (case spec_primaryLabel (GetQuboleConfig amb) label of
                  Some primary \<Rightarrow> primary
                | None \<Rightarrow> DefaultClusterPrimaryLabel amb)
           | None \<Rightarrow> DefaultClusterPrimaryLabel amb))"

section \<open>The invariant of the reachable worlds\<close>

text \<open>
  A state is launched when a phase from Submitted on comes with a command id; the cache
  is tracked when the entry of the task, if it is an execution state, has a command id.
\<close>

definition launched :: "ExecutionState \<Rightarrow> bool" where
  "launched s =
     (Phase s = PhaseSubmitted \<or> Phase s = PhaseQuerySucceeded \<or> Phase s = PhaseQueryFailed
        \<longrightarrow> CommandId s \<noteq> [])"

definition tracked :: "string \<Rightarrow> Store \<Rightarrow> bool" where
  "tracked uid store =
     (\<forall>it. store uid = Some (StateItem it) \<longrightarrow> CommandId (ItemState it) \<noteq> [])"

section \<open>Example surroundings\<close>

text \<open>
  A configuration with two clusters and one (project, domain) mapping, a task whose
  payload names the cluster label \<open>label\<close>, and collaborators with fixed answers.
\<close>

definition demoConfig :: Config where
  "demoConfig =
     \<lparr>ClusterConfigs =
        [\<lparr>PrimaryLabel = ''prod-1'', Labels = [''teamA'']\<rparr>,
         \<lparr>PrimaryLabel = ''prod-2'', Labels = [''teamB'']\<rparr>],
      DestinationClusterConfigs =
        [\<lparr>Project = ''p'', Domain = ''d'', DestClusterLabel = ''teamB''\<rparr>],
      TokenKey = ''token''\<rparr>"

definition demoJob :: "string \<Rightarrow> QuboleHiveJob" where
  "demoJob label =
     \<lparr>ClusterLabel = label, Tags = [],
      Query = Some \<lparr>QueryText = ''select 1'', TimeoutSec = 60, RetryCount = 0\<rparr>\<rparr>"

definition demoAmbient :: "string \<Rightarrow> Ambient" where
  "demoAmbient label =
     \<lparr>GetQuboleConfig = demoConfig, Now = 1000,
      UnmarshalStruct = (\<lambda>custom. Inr (demoJob label)),
      DefaultClusterPrimaryLabel = ''default''\<rparr>"

definition demoTask :: "string \<Rightarrow> string \<Rightarrow> error + AllocationStatus \<Rightarrow> TaskExecutionContext" where
  "demoTask project domain allocation =
     \<lparr>GeneratedName = ''t1'', Namespace = ''ns'', GetLabels = [],
      ExecProject = project, ExecDomain = domain,
      TaskReaderRead = Inr \<lparr>Custom = []\<rparr>,
      AllocateResource = (\<lambda>ns token. allocation),
      ReleaseResource = (\<lambda>ns token. None),
      SecretManagerGet = (\<lambda>key. Inr ''secret'')\<rparr>"

text \<open>The same task when its template cannot be read.\<close>

definition unreadableTask :: TaskExecutionContext where
  "unreadableTask =
     (demoTask ''p'' ''d'' (Inr AllocationStatusGranted))
       \<lparr>TaskReaderRead := Inl (External ''template not found'')\<rparr>"

definition demoClient :: "error + QuboleCommandDetails \<Rightarrow> QuboleClient" where
  "demoClient created =
     \<lparr>ExecuteHiveCommand = (\<lambda>query timeoutSec label apiKey tags. created),
      KillCommand = (\<lambda>commandId apiKey. None)\<rparr>"

definition emptyStore :: Store where
  "emptyStore = (\<lambda>itemId. None)"

definition queuedState :: ExecutionState where
  "queuedState = zeroExecutionState\<lparr>Phase := PhaseQueued, AllocationTokenRequestStartTime := 1000\<rparr>"

definition submittedState :: ExecutionState where
  "submittedState = queuedState\<lparr>CommandId := ''123'', Phase := PhaseSubmitted, URI := ''u''\<rparr>"

text \<open>A tick in which the backend is down, and one in which it creates command 123.\<close>

definition backendDown :: Surroundings where
  "backendDown =
     (demoAmbient ''teamA'', demoTask ''p'' ''d'' (Inr AllocationStatusGranted),
      demoClient (Inl (External ''backend down'')), storeGetOrCreate None emptyStore, demoConfig)"

text \<open>
  The run of the scenario: admission granted, command 123 created, the cache refreshed
  to Succeeded, and the state adopted from the cache.
\<close>

definition created123 :: QuboleClient where
  "created123 = demoClient (Inr \<lparr>ID = 123, DetailsURI = ''u''\<rparr>)"

definition succeededState :: ExecutionState where
  "succeededState = submittedState\<lparr>Phase := PhaseQuerySucceeded\<rparr>"

definition cachedStore :: "ExecutionState \<Rightarrow> Store" where
  "cachedStore s = emptyStore(''t1'' := Some (StateItem \<lparr>ItemState = s, ItemId = ''t1''\<rparr>))"

definition demoWorld :: "ExecutionState \<Rightarrow> Store \<Rightarrow> World" where
  "demoWorld s store = \<lparr>Persisted = s, CacheStore = store\<rparr>"

text \<open>A cache that fails, and the task when the allocator is down.\<close>

definition cacheDown :: AutoRefresh where
  "cacheDown = storeGetOrCreate (Some (External ''cache down'')) emptyStore"

definition allocatorDown :: TaskExecutionContext where
  "allocatorDown = demoTask ''p'' ''d'' (Inl (External ''allocator down''))"

definition strangeStatus :: TaskExecutionContext where
  "strangeStatus = demoTask ''p'' ''d'' (Inr (AllocationStatusOther ''Pending''))"

definition secretMissing :: TaskExecutionContext where
  "secretMissing =
     (demoTask ''p'' ''d'' (Inr AllocationStatusGranted))
       \<lparr>SecretManagerGet := \<lambda>key. Inl (External ''no secret'')\<rparr>"

definition waitingState :: ExecutionState where
  "waitingState = zeroExecutionState\<lparr>AllocationTokenRequestStartTime := 5\<rparr>"

section \<open>Facts about the machine integers and the decimal format\<close>

lemmas Phase_defs =
  PhaseNotStarted_def PhaseQueued_def PhaseSubmitted_def
  PhaseQuerySucceeded_def PhaseQueryFailed_def

lemma uint_of_sint: "0 \<le> sint (c::64 word) \<Longrightarrow> uint c = sint c"
proof -
  assume nonneg: "0 \<le> sint c"
  have "uint (word_of_int (sint c) :: 64 word) = take_bit LENGTH(64) (sint c)"
    by (rule uint_word_of_int_eq)
  then have "uint c = take_bit 64 (sint c)" by simp
  moreover have "sint c < 2 ^ 64" using sint_lt [of c] by simp
  ultimately show ?thesis using nonneg by (simp add: take_bit_int_eq_self)
qed

lemma uint32_of_small:
  "0 \<le> sint (c::64 word) \<Longrightarrow> sint c < 2 ^ 32 \<Longrightarrow> uint (ucast c :: 32 word) = sint c"
  by (simp add: unsigned_ucast_eq uint_of_sint take_bit_int_eq_self)

lemma sint_add_nat:
  "sint (c::64 word) + int n < 2 ^ 63 \<Longrightarrow> sint (c + of_nat n) = sint c + int n"
proof -
  assume below: "sint c + int n < 2 ^ 63"
  have "c + of_nat n = word_of_int (sint c + int n)" by simp
  then have "sint (c + of_nat n) = signed_take_bit 63 (sint c + int n)"
    by (simp only: sint_sbintrunc') simp
  moreover have "- (2 ^ 63) \<le> sint c + int n" using sint_ge [of c] by simp
  ultimately show ?thesis using below by (simp add: signed_take_bit_int_eq_self)
qed

lemma decimal_nonempty: "decimal n \<noteq> []"
  by (induction n rule: decimal.induct) (subst decimal.simps, simp)

lemma FormatInt_nonempty: "FormatInt i \<noteq> []"
  by (simp add: FormatInt_def decimal_nonempty)

section \<open>Facts about the example surroundings\<close>

lemmas demo_defs =
  demoAmbient_def demoTask_def demoConfig_def demoJob_def unreadableTask_def
  demoClient_def queuedState_def submittedState_def zeroExecutionState_def emptyStore_def

lemmas namespace_defs =
  composeResourceNamespaceWithClusterPrimaryLabel_def GetQueryInfo_def
  validateQuboleHiveJob_def getClusterPrimaryLabel_def mapLabelToPrimaryLabel_def
  mapProjectDomainToDestinationClusterLabel_def GetQuery_def GetTimeoutSec_def

lemma demo_namespace:
  "composeResourceNamespaceWithClusterPrimaryLabel (demoAmbient ''teamA'')
     (demoTask ''p'' ''d'' allocation) = Inr ''prod-1''"
  by (simp add: namespace_defs demo_defs)

lemma unreadable_namespace:
  "composeResourceNamespaceWithClusterPrimaryLabel (demoAmbient ''teamA'') unreadableTask =
     Inl (External ''template not found'')"
  by (simp add: namespace_defs demo_defs)

lemma FormatInt_123: "FormatInt 123 = ''123''"
  by code_simp

lemma demo_queryInfo:
  "GetQueryInfo (demoAmbient ''teamA'') (demoTask ''p'' ''d'' allocation) =
     Inr (''select 1'', ''teamA'', [''ns:ns''], 60)"
  by (simp add: namespace_defs demo_defs)

lemma demo_primaryLabel:
  "getClusterPrimaryLabel (demoAmbient ''teamA'') (demoTask ''p'' ''d'' allocation) ''teamA'' =
     ''prod-1''"
  by (simp add: namespace_defs demo_defs)

lemma backendDown_createFails: "createFails backendDown"
  by (simp add: backendDown_def createFails_def namespace_defs demo_defs)

section \<open>Finalize and the admission token\<close>

text \<open>
  C1 as stated: Finalize invokes ReleaseResource exactly once on every exit path, also
  when computing the resource namespace fails. It does not: when the task template
  cannot be read, Finalize returns before the release and no call is made.
\<close>

theorem C1_release_skipped_counterexample:
  "\<not> releases (snd (Finalize (demoAmbient ''teamA'') unreadableTask submittedState)) = 1"
  by (simp add: Finalize_def unreadable_namespace)

text \<open>
  C1, amended: for every execution state, when the resource namespace is computed
  Finalize invokes ReleaseResource exactly once, for that namespace and the task's
  generated name, and returns what the release returns; when computing the namespace
  fails, Finalize makes no call and returns that error wrapped as ResourceManagerFailure.
\<close>

theorem C1_release_once_when_namespace_known:
  "(composeResourceNamespaceWithClusterPrimaryLabel amb tCtx = Inr ns \<longrightarrow>
      Finalize amb tCtx s =
        (ReleaseResource tCtx ns (GeneratedName tCtx),
         [ReleaseResourceCall ns (GeneratedName tCtx)])
      \<and> releases (snd (Finalize amb tCtx s)) = 1)
   \<and> (composeResourceNamespaceWithClusterPrimaryLabel amb tCtx = Inl err \<longrightarrow>
      Finalize amb tCtx s =
        (Some (Wrapf ResourceManagerFailure err
           ''Error getting query info when releasing allocation token %s''), []))"
  by (simp add: Finalize_def Let_def split: option.splits)

theorem C1_release_once_witness:
  "releases (snd (Finalize (demoAmbient ''teamA'')
      (demoTask ''p'' ''d'' (Inr AllocationStatusGranted)) submittedState)) = 1
   \<and> Finalize (demoAmbient ''teamA'') unreadableTask submittedState =
        (Some (Wrapf ResourceManagerFailure (External ''template not found'')
           ''Error getting query info when releasing allocation token %s''), [])"
  using C1_release_once_when_namespace_known
      [of "demoAmbient ''teamA''" "demoTask ''p'' ''d'' (Inr AllocationStatusGranted)"
          "''prod-1''" submittedState]
    C1_release_once_when_namespace_known
      [of "demoAmbient ''teamA''" unreadableTask _ submittedState
          "External ''template not found''"]
  by (simp add: demo_namespace unreadable_namespace)

section \<open>Admission denial\<close>

text \<open>
  C5: for every NotStarted state, when the allocator denies the request (Exhausted or
  NamespaceQuotaExceeded), GetAllocationToken returns a nil error and a state whose
  phase is NotStarted and whose creationFailureCount is 0, hence not above a count
  that is not negative; the start time of the returned state is the input's when that
  was set, and the current time otherwise.
\<close>

theorem C5_denial_stays_not_started:
  "composeResourceNamespaceWithClusterPrimaryLabel amb tCtx = Inr ns \<Longrightarrow>
   AllocateResource tCtx ns (GeneratedName tCtx) = Inr status \<Longrightarrow>
   status = AllocationStatusExhausted \<or> status = AllocationStatusNamespaceQuotaExceeded \<Longrightarrow>
   Phase s = PhaseNotStarted \<Longrightarrow>
   HandleExecutionState amb tCtx s quboleClient cache cfg = GetAllocationToken amb tCtx s
   \<and> fst (snd (GetAllocationToken amb tCtx s)) = None
   \<and> Phase (fst (GetAllocationToken amb tCtx s)) = PhaseNotStarted
   \<and> CreationFailureCount (fst (GetAllocationToken amb tCtx s)) = 0
   \<and> (0 \<le> sint (CreationFailureCount s) \<longrightarrow>
        sint (CreationFailureCount (fst (GetAllocationToken amb tCtx s)))
          \<le> sint (CreationFailureCount s))
   \<and> AllocationTokenRequestStartTime (fst (GetAllocationToken amb tCtx s)) =
        (if IsZero (AllocationTokenRequestStartTime s) then Now amb
         else AllocationTokenRequestStartTime s)"
  by (auto simp add: HandleExecutionState_def GetAllocationToken_def Let_def
      zeroExecutionState_def)

theorem C5_denial_witness:
  "fst (snd (GetAllocationToken (demoAmbient ''teamA'')
      (demoTask ''p'' ''d'' (Inr AllocationStatusExhausted))
      (zeroExecutionState\<lparr>AllocationTokenRequestStartTime := 5\<rparr>))) = None
   \<and> Phase (fst (GetAllocationToken (demoAmbient ''teamA'')
      (demoTask ''p'' ''d'' (Inr AllocationStatusExhausted))
      (zeroExecutionState\<lparr>AllocationTokenRequestStartTime := 5\<rparr>))) = PhaseNotStarted
   \<and> AllocationTokenRequestStartTime (fst (GetAllocationToken (demoAmbient ''teamA'')
      (demoTask ''p'' ''d'' (Inr AllocationStatusExhausted))
      (zeroExecutionState\<lparr>AllocationTokenRequestStartTime := 5\<rparr>))) = 5"
proof -
  let ?tCtx = "demoTask ''p'' ''d'' (Inr AllocationStatusExhausted)"
  let ?s = "zeroExecutionState\<lparr>AllocationTokenRequestStartTime := 5\<rparr>"
  have ns: "composeResourceNamespaceWithClusterPrimaryLabel (demoAmbient ''teamA'') ?tCtx =
      Inr ''prod-1''"
    by (rule demo_namespace)
  have denied: "AllocateResource ?tCtx ''prod-1'' (GeneratedName ?tCtx) =
      Inr AllocationStatusExhausted"
    by (simp add: demoTask_def)
  have status: "AllocationStatusExhausted = AllocationStatusExhausted
      \<or> AllocationStatusExhausted = AllocationStatusNamespaceQuotaExceeded"
    by simp
  have phase: "Phase ?s = PhaseNotStarted"
    by (simp add: zeroExecutionState_def PhaseNotStarted_def)
  show ?thesis
    using C5_denial_stays_not_started [OF ns denied status phase,
        where quboleClient = "demoClient (Inl (External ''backend down''))"
          and cache = "storeGetOrCreate None emptyStore" and cfg = demoConfig]
    by (simp add: IsZero_def zeroExecutionState_def)
qed

section \<open>Failed creation\<close>

lemma KickOffQuery_createFails:
  "createFails (amb, tCtx, quboleClient, cache, cfg) \<Longrightarrow>
   fst (KickOffQuery amb tCtx s quboleClient cache cfg) =
     s\<lparr>CreationFailureCount := CreationFailureCount s + 1\<rparr>
   \<and> fst (snd (KickOffQuery amb tCtx s quboleClient cache cfg)) = None"
  by (auto simp add: createFails_def KickOffQuery_def Let_def split: sum.splits prod.splits)

lemma Handle_Queued:
  "Phase s = PhaseQueued \<Longrightarrow>
   HandleExecutionState amb tCtx s quboleClient cache cfg =
     KickOffQuery amb tCtx s quboleClient cache cfg"
  by (simp add: HandleExecutionState_def Phase_defs)

lemma iterateHandle_createFails:
  "list_all createFails es \<Longrightarrow> Phase s = PhaseQueued \<Longrightarrow>
   iterateHandle es s = s\<lparr>CreationFailureCount := CreationFailureCount s + of_nat (length es)\<rparr>"
proof (induction es arbitrary: s)
  case Nil
  then show ?case by simp
next
  case (Cons e es)
  obtain amb tCtx quboleClient cache cfg where e: "e = (amb, tCtx, quboleClient, cache, cfg)"
    by (cases e) auto
  let ?s = "s\<lparr>CreationFailureCount := CreationFailureCount s + 1\<rparr>"
  from Cons.prems e have step: "fst (HandleExecutionState amb tCtx s quboleClient cache cfg) = ?s"
    by (simp add: Handle_Queued KickOffQuery_createFails)
  from Cons.prems have "iterateHandle es ?s =
      ?s\<lparr>CreationFailureCount := CreationFailureCount ?s + of_nat (length es)\<rparr>"
    by (intro Cons.IH) simp_all
  with e step show ?case by (simp add: add.assoc)
qed

text \<open>
  C6: for every Queued state, when the backend create call fails, KickOffQuery returns
  a nil error and the input state with creationFailureCount plus one (Go's \<open>+ 1\<close> on
  an int), so the phase is still Queued and the command id is unchanged. After \<open>k\<close>
  failed attempts in a row the state is the first one with the counter plus \<open>k\<close>:
  it never resets, and while the sum stays inside the range of an int the counter read
  as a number grows by one each time and is non-decreasing along the sequence.
\<close>

theorem C6_failed_create_counts:
  "Phase s = PhaseQueued \<Longrightarrow> createFails (amb, tCtx, quboleClient, cache, cfg) \<Longrightarrow>
   list_all createFails es \<Longrightarrow>
   HandleExecutionState amb tCtx s quboleClient cache cfg =
     KickOffQuery amb tCtx s quboleClient cache cfg
   \<and> fst (KickOffQuery amb tCtx s quboleClient cache cfg) =
       s\<lparr>CreationFailureCount := CreationFailureCount s + 1\<rparr>
   \<and> fst (snd (KickOffQuery amb tCtx s quboleClient cache cfg)) = None
   \<and> Phase (fst (KickOffQuery amb tCtx s quboleClient cache cfg)) = PhaseQueued
   \<and> CommandId (fst (KickOffQuery amb tCtx s quboleClient cache cfg)) = CommandId s
   \<and> (sint (CreationFailureCount s) + 1 < 2 ^ 63 \<longrightarrow>
        sint (CreationFailureCount (fst (KickOffQuery amb tCtx s quboleClient cache cfg))) =
          sint (CreationFailureCount s) + 1)
   \<and> (k \<le> length es \<longrightarrow>
        iterateHandle (take k es) s =
          s\<lparr>CreationFailureCount := CreationFailureCount s + of_nat k\<rparr>)
   \<and> (sint (CreationFailureCount s) + int (length es) < 2 ^ 63 \<longrightarrow>
        k \<le> j \<longrightarrow> j \<le> length es \<longrightarrow>
           sint (CreationFailureCount (iterateHandle (take k es) s))
             \<le> sint (CreationFailureCount (iterateHandle (take j es) s)))"
proof -
  assume q: "Phase s = PhaseQueued" and f: "createFails (amb, tCtx, quboleClient, cache, cfg)"
    and fs: "list_all createFails es"
  have prefix: "iterateHandle (take i es) s =
      s\<lparr>CreationFailureCount := CreationFailureCount s + of_nat i\<rparr>" if "i \<le> length es" for i
  proof -
    have "list_all createFails (take i es)"
      using fs by (auto simp: list_all_iff dest: in_set_takeD)
    then show ?thesis using q that by (simp add: iterateHandle_createFails min_def)
  qed
  have mono: "sint (CreationFailureCount (iterateHandle (take k es) s))
             \<le> sint (CreationFailureCount (iterateHandle (take j es) s))"
    if "sint (CreationFailureCount s) + int (length es) < 2 ^ 63" "j \<le> length es" "k \<le> j"
  proof -
    have "sint (CreationFailureCount s + of_nat k) = sint (CreationFailureCount s) + int k"
      using that by (intro sint_add_nat) simp
    moreover have "sint (CreationFailureCount s + of_nat j) = sint (CreationFailureCount s) + int j"
      using that by (intro sint_add_nat) simp
    ultimately show ?thesis using that by (simp add: prefix)
  qed
  have one: "sint (CreationFailureCount s) + 1 < 2 ^ 63 \<Longrightarrow>
      sint (CreationFailureCount s + 1) = sint (CreationFailureCount s) + 1"
    using sint_add_nat [of "CreationFailureCount s" 1] by simp
  show ?thesis
    using q f prefix mono one
    by (simp add: Handle_Queued KickOffQuery_createFails)
qed

theorem C6_failed_create_witness:
  "fst (KickOffQuery (demoAmbient ''teamA'') (demoTask ''p'' ''d'' (Inr AllocationStatusGranted))
          queuedState (demoClient (Inl (External ''backend down'')))
          (storeGetOrCreate None emptyStore) demoConfig) =
     queuedState\<lparr>CreationFailureCount := 1\<rparr>
   \<and> iterateHandle [backendDown, backendDown, backendDown] queuedState =
     queuedState\<lparr>CreationFailureCount := 3\<rparr>
   \<and> sint (CreationFailureCount (iterateHandle [backendDown] queuedState))
       \<le> sint (CreationFailureCount (iterateHandle [backendDown, backendDown, backendDown] queuedState))"
proof -
  have q: "Phase queuedState = PhaseQueued" by (simp add: queuedState_def)
  have f: "createFails (demoAmbient ''teamA'', demoTask ''p'' ''d'' (Inr AllocationStatusGranted),
      demoClient (Inl (External ''backend down'')), storeGetOrCreate None emptyStore, demoConfig)"
    using backendDown_createFails by (simp add: backendDown_def)
  have fs: "list_all createFails [backendDown, backendDown, backendDown]"
    by (simp add: backendDown_createFails)
  have z: "CreationFailureCount queuedState = 0"
    by (simp add: queuedState_def zeroExecutionState_def)
  show ?thesis
    using C6_failed_create_counts [OF q f fs, of 3 3] C6_failed_create_counts [OF q f fs, of 1 3]
    by (simp add: z)
qed

section \<open>The phase projector\<close>

text \<open>
  C7: for every state with phase Queued, MapExecutionStateToPhaseInfo reports the
  system-retryable failure exactly when creationFailureCount is above 5 (so at 6), and
  otherwise the queued phase whose version is creationFailureCount converted to uint32,
  the same number whenever the count is not negative.
\<close>

theorem C7_queued_projection:
  "Phase state = PhaseQueued \<Longrightarrow>
   ((\<exists>code reason info. MapExecutionStateToPhaseInfo t t' state =
        PhaseInfoSystemRetryableFailure code reason info)
      \<longleftrightarrow> 5 < sint (CreationFailureCount state))
   \<and> (5 < sint (CreationFailureCount state) \<longrightarrow>
        MapExecutionStateToPhaseInfo t t' state =
          PhaseInfoSystemRetryableFailure ''QuboleFailure'' ''Too many creation attempts'' None)
   \<and> (\<not> 5 < sint (CreationFailureCount state) \<longrightarrow>
        MapExecutionStateToPhaseInfo t t' state =
          PhaseInfoQueued t (ucast (CreationFailureCount state)) ''Waiting for Qubole launch'')
   \<and> (0 \<le> sint (CreationFailureCount state) \<and> \<not> 5 < sint (CreationFailureCount state) \<longrightarrow>
        uint (ucast (CreationFailureCount state) :: uint32) = sint (CreationFailureCount state))"
  by (simp add: MapExecutionStateToPhaseInfo_def Phase_defs word_sless_alt uint32_of_small)

theorem C7_queued_projection_witness:
  "MapExecutionStateToPhaseInfo 10 11 (queuedState\<lparr>CreationFailureCount := 6\<rparr>) =
     PhaseInfoSystemRetryableFailure ''QuboleFailure'' ''Too many creation attempts'' None
   \<and> MapExecutionStateToPhaseInfo 10 11 (queuedState\<lparr>CreationFailureCount := 5\<rparr>) =
     PhaseInfoQueued 10 5 ''Waiting for Qubole launch''"
  using C7_queued_projection [of "queuedState\<lparr>CreationFailureCount := 6\<rparr>" 10 11]
    C7_queued_projection [of "queuedState\<lparr>CreationFailureCount := 5\<rparr>" 10 11]
  by (simp add: queuedState_def)

section \<open>Abort\<close>

text \<open>
  C9: for every state whose phase is terminal (Succeeded or Failed), Abort makes no call
  and returns nil; KillCommand is called, once and with the state's command id, exactly
  when the phase is not terminal and the command id is not empty.
\<close>

theorem C9_abort_guard:
  "(InTerminalState s \<longrightarrow> Abort s quboleClient apiKey = (None, []))
   \<and> snd (Abort s quboleClient apiKey) =
       (if \<not> InTerminalState s \<and> CommandId s \<noteq> [] then [KillCommandCall (CommandId s) apiKey]
        else [])
   \<and> (0 < kills (snd (Abort s quboleClient apiKey))
        \<longleftrightarrow> \<not> InTerminalState s \<and> CommandId s \<noteq> [])
   \<and> (InTerminalState s \<longleftrightarrow> Phase s = PhaseQuerySucceeded \<or> Phase s = PhaseQueryFailed)"
  by (simp add: Abort_def InTerminalState_def split: option.splits)

theorem C9_abort_guard_witness:
  "InTerminalState (submittedState\<lparr>Phase := PhaseQuerySucceeded\<rparr>)
   \<and> Abort (submittedState\<lparr>Phase := PhaseQuerySucceeded\<rparr>)
       (demoClient (Inl (External ''backend down''))) ''secret'' = (None, [])
   \<and> snd (Abort submittedState (demoClient (Inl (External ''backend down''))) ''secret'') =
       [KillCommandCall ''123'' ''secret'']"
  using C9_abort_guard [of "submittedState\<lparr>Phase := PhaseQuerySucceeded\<rparr>"
      "demoClient (Inl (External ''backend down''))" "''secret''"]
    C9_abort_guard [of submittedState "demoClient (Inl (External ''backend down''))" "''secret''"]
  by (simp add: InTerminalState_def submittedState_def queuedState_def Phase_defs)

section \<open>A phase outside the enumeration\<close>

text \<open>
  C10: for every input state whose phase is none of the five ExecutionPhase constants,
  HandleExecutionState returns the zero ExecutionState (phase NotStarted, empty command
  id and URI, zero failure counters, zero start time) with a nil error, and makes no call.
\<close>

theorem C10_unknown_phase_resets:
  "Phase s \<noteq> PhaseNotStarted \<Longrightarrow> Phase s \<noteq> PhaseQueued \<Longrightarrow> Phase s \<noteq> PhaseSubmitted \<Longrightarrow>
   Phase s \<noteq> PhaseQuerySucceeded \<Longrightarrow> Phase s \<noteq> PhaseQueryFailed \<Longrightarrow>
   HandleExecutionState amb tCtx s quboleClient cache cfg = (zeroExecutionState, None, [])
   \<and> Phase zeroExecutionState = PhaseNotStarted
   \<and> CommandId zeroExecutionState = [] \<and> URI zeroExecutionState = []
   \<and> SyncFailureCount zeroExecutionState = 0 \<and> CreationFailureCount zeroExecutionState = 0
   \<and> IsZero (AllocationTokenRequestStartTime zeroExecutionState)"
  by (simp add: HandleExecutionState_def zeroExecutionState_def PhaseNotStarted_def IsZero_def)

theorem C10_unknown_phase_witness:
  "HandleExecutionState (demoAmbient []) unreadableTask (submittedState\<lparr>Phase := 7\<rparr>)
     (demoClient (Inl (External ''backend down''))) (storeGetOrCreate None emptyStore) demoConfig
   = (zeroExecutionState, None, [])"
  using C10_unknown_phase_resets [of "submittedState\<lparr>Phase := 7\<rparr>" "demoAmbient []"
      unreadableTask "demoClient (Inl (External ''backend down''))"
      "storeGetOrCreate None emptyStore" demoConfig]
  by (simp add: Phase_defs)

section \<open>The resource namespace\<close>

lemma labelsLoop_eq:
  "label \<noteq> [] \<Longrightarrow>
   labelsLoop label primary ls acc = (if label \<in> set ls then (primary, True) else acc)"
  by (induction ls) auto

lemma clustersLoop_eq:
  "label \<noteq> [] \<Longrightarrow>
   clustersLoop label cs acc =
     (case filter (\<lambda>c. label \<in> set (Labels c)) cs of
        [] \<Rightarrow> acc
      | c # rest \<Rightarrow> (PrimaryLabel (last (c # rest)), True))"
proof (induction cs arbitrary: acc)
  case Nil
  then show ?case by simp
next
  case (Cons c cs)
  then show ?case
    by (simp add: labelsLoop_eq split: list.splits)
qed

lemma mapLabelToPrimaryLabel_eq:
  "mapLabelToPrimaryLabel amb cfg label =
     (case spec_primaryLabel cfg label of
        Some primary \<Rightarrow> (primary, True)
      | None \<Rightarrow> (DefaultClusterPrimaryLabel amb, False))"
  by (simp add: mapLabelToPrimaryLabel_def spec_primaryLabel_def clustersLoop_eq
      split: list.splits)

lemma destinationLoop_eq:
  "destinationLoop project domain ms =
     (case find (\<lambda>m. project = Project m \<and> domain = Domain m) ms of
        Some m \<Rightarrow> (DestClusterLabel m, True)
      | None \<Rightarrow> ([], False))"
  by (induction ms) auto

lemma spec_primaryLabel_empty: "spec_primaryLabel cfg [] = None"
  by (simp add: spec_primaryLabel_def)

lemma spec_primaryLabel_None:
  "spec_primaryLabel cfg label = None \<longleftrightarrow>
     label = [] \<or> \<not> (\<exists>c \<in> set (ClusterConfigs cfg). label \<in> set (Labels c))"
proof -
  let ?hits = "filter (\<lambda>c. label \<in> set (Labels c)) (ClusterConfigs cfg)"
  have "spec_primaryLabel cfg label = None \<longleftrightarrow> label = [] \<or> ?hits = []"
    by (simp add: spec_primaryLabel_def split: list.splits)
  then show ?thesis by (simp add: filter_empty_conv)
qed

lemma spec_primaryLabel_Some:
  assumes "spec_primaryLabel cfg label = Some primary"
  shows "\<exists>c \<in> set (ClusterConfigs cfg). label \<in> set (Labels c) \<and> primary = PrimaryLabel c"
proof -
  let ?hits = "filter (\<lambda>c. label \<in> set (Labels c)) (ClusterConfigs cfg)"
  from assms have ne: "?hits \<noteq> []" and p: "primary = PrimaryLabel (last ?hits)"
    by (auto simp add: spec_primaryLabel_def split: if_splits list.splits)
  from ne have "last ?hits \<in> set ?hits" by (rule last_in_set)
  with p show ?thesis by auto
qed

text \<open>
  C8: for every task, getClusterPrimaryLabel computes the namespace of the precedence:
  the primary label mapped from the override label when that is non-empty and mapped;
  otherwise the primary label of the cluster label that the (project, domain) pair maps
  to; otherwise the fixed default primary label (also when that cluster label has no
  primary label). A label is mapped exactly when it is non-empty and listed by a cluster
  of the configuration, and its primary label is that of a cluster listing it.
\<close>

theorem C8_namespace_precedence:
  "getClusterPrimaryLabel amb tCtx override = spec_resourceNamespace amb tCtx override
   \<and> (spec_primaryLabel cfg label = None \<longleftrightarrow>
        label = [] \<or> \<not> (\<exists>c \<in> set (ClusterConfigs cfg). label \<in> set (Labels c)))
   \<and> (spec_primaryLabel cfg label = Some primary \<longrightarrow>
        (\<exists>c \<in> set (ClusterConfigs cfg). label \<in> set (Labels c) \<and> primary = PrimaryLabel c))"
proof -
  have "getClusterPrimaryLabel amb tCtx override = spec_resourceNamespace amb tCtx override"
    by (simp add: getClusterPrimaryLabel_def spec_resourceNamespace_def
      mapLabelToPrimaryLabel_eq destinationLoop_eq spec_destinationLabel_def
      mapProjectDomainToDestinationClusterLabel_def spec_primaryLabel_empty Let_def
      split: option.splits)
  then show ?thesis
    using spec_primaryLabel_None [of cfg label] spec_primaryLabel_Some [of cfg label primary]
    by blast
qed

theorem C8_namespace_scenario_witness:
  "getClusterPrimaryLabel (demoAmbient ''teamA'')
      (demoTask ''p'' ''d'' (Inr AllocationStatusGranted)) ''teamA'' = ''prod-1''
   \<and> getClusterPrimaryLabel (demoAmbient [])
      (demoTask ''p'' ''d'' (Inr AllocationStatusGranted)) [] = ''prod-2''
   \<and> getClusterPrimaryLabel (demoAmbient [])
      (demoTask ''x'' ''y'' (Inr AllocationStatusGranted)) [] = ''default''"
  using C8_namespace_precedence
      [of "demoAmbient ''teamA''" "demoTask ''p'' ''d'' (Inr AllocationStatusGranted)"
          "''teamA''" demoConfig "''teamA''" "''prod-1''"]
    C8_namespace_precedence
      [of "demoAmbient []" "demoTask ''p'' ''d'' (Inr AllocationStatusGranted)"
          "[]" demoConfig "''teamB''" "''prod-2''"]
    C8_namespace_precedence
      [of "demoAmbient []" "demoTask ''x'' ''y'' (Inr AllocationStatusGranted)"
          "[]" demoConfig "''nobody''" "''prod-2''"]
  by (simp add: spec_resourceNamespace_def spec_primaryLabel_def spec_destinationLabel_def
      demo_defs)

section \<open>The state returned with an error\<close>

lemma allocatorDown_outcome:
  "GetAllocationToken (demoAmbient ''teamA'') allocatorDown waitingState =
     (zeroExecutionState,
      Some (Wrapf ResourceManagerFailure (External ''allocator down'')
        ''Error requesting allocation token %s''),
      [AllocateResourceCall ''prod-1'' ''t1''])"
proof -
  have ns: "composeResourceNamespaceWithClusterPrimaryLabel (demoAmbient ''teamA'')
      allocatorDown = Inr ''prod-1''"
    unfolding allocatorDown_def by (rule demo_namespace)
  have down: "AllocateResource allocatorDown = (\<lambda>ns token. Inl (External ''allocator down''))"
    "GeneratedName allocatorDown = ''t1''"
    by (simp_all add: allocatorDown_def demoTask_def)
  show ?thesis
    by (simp add: GetAllocationToken_def ns down Let_def)
qed

lemma unreadable_outcome:
  "KickOffQuery (demoAmbient ''teamA'') unreadableTask queuedState created123 cacheDown demoConfig =
     (queuedState, Some (External ''template not found''), [])"
  by (simp add: KickOffQuery_def GetQueryInfo_def Let_def unreadableTask_def demoTask_def)

lemma cacheDown_outcome:
  "MonitorQuery allocatorDown submittedState cacheDown =
     (submittedState,
      Some (Wrapf CacheFailed (External ''cache down'') ''Error when GetOrCreate while monitoring''),
      [GetOrCreateCall ''t1'' (StateItem \<lparr>ItemState = submittedState, ItemId = ''t1''\<rparr>)])"
  by (simp add: MonitorQuery_def Let_def cacheDown_def storeGetOrCreate_def allocatorDown_def
      demoTask_def)

text \<open>
  C2 as stated: whenever a transition returns a non-nil error, the state returned with it
  equals the input state. It does not: a task that waits for its token since time 5 and
  whose allocator is down gets the zero state back with the error.
\<close>

theorem C2_error_state_counterexample:
  "fst (snd (HandleExecutionState (demoAmbient ''teamA'') allocatorDown waitingState
        created123 cacheDown demoConfig)) \<noteq> None
   \<and> fst (HandleExecutionState (demoAmbient ''teamA'') allocatorDown waitingState
        created123 cacheDown demoConfig) \<noteq> waitingState"
proof -
  have phase: "Phase waitingState = PhaseNotStarted"
    by (simp add: waitingState_def zeroExecutionState_def PhaseNotStarted_def)
  have changed: "zeroExecutionState \<noteq> waitingState"
    by (simp add: waitingState_def zeroExecutionState_def)
  show ?thesis
    by (simp add: HandleExecutionState_def phase allocatorDown_outcome changed)
qed

lemma registrationFails_outcome:
  "KickOffQuery (demoAmbient ''teamA'') (demoTask ''p'' ''d'' (Inr AllocationStatusGranted))
     queuedState created123 cacheDown demoConfig =
   (submittedState, Some (External ''cache down''),
    [ExecuteHiveCommandCall ''select 1'' 60 ''prod-1'' ''secret'' [''ns:ns''],
     GetOrCreateCall ''t1'' (StateItem \<lparr>ItemState = submittedState, ItemId = ''t1''\<rparr>)])"
proof -
  let ?tCtx = "demoTask ''p'' ''d'' (Inr AllocationStatusGranted)"
  have rest: "SecretManagerGet ?tCtx = (\<lambda>key. Inr ''secret'')" "GeneratedName ?tCtx = ''t1''"
    "ExecuteHiveCommand created123 =
       (\<lambda>query timeoutSec label apiKey tags. Inr \<lparr>ID = 123, DetailsURI = ''u''\<rparr>)"
    by (simp_all add: demoTask_def demoClient_def created123_def)
  show ?thesis
    by (simp add: KickOffQuery_def demo_queryInfo demo_primaryLabel rest Let_def FormatInt_123
        submittedState_def
        cacheDown_def storeGetOrCreate_def)
qed

lemma secretMissing_outcome:
  "KickOffQuery (demoAmbient ''teamA'') secretMissing queuedState created123 cacheDown demoConfig =
     (queuedState,
      Some (Wrapf RuntimeFailure (External ''no secret'')
        ''Failed to read token from secrets manager''),
      [])"
  by (simp add: KickOffQuery_def Let_def secretMissing_def demoTask_def)

lemma unreadable_allocation_outcome:
  "GetAllocationToken (demoAmbient ''teamA'') unreadableTask waitingState =
     (zeroExecutionState,
      Some (Wrapf ResourceManagerFailure (External ''template not found'')
        ''Error getting query info when requesting allocation token %s''),
      [])"
  by (simp add: GetAllocationToken_def unreadable_namespace Let_def)

lemma strangeStatus_outcome:
  "GetAllocationToken (demoAmbient ''teamA'') strangeStatus waitingState =
     (waitingState,
      Some (Errorf ResourceManagerFailure ''Got bad allocation result [%s] for token [%s]''),
      [AllocateResourceCall ''prod-1'' ''t1''])
   \<and> GetAllocationToken (demoAmbient ''teamA'') strangeStatus zeroExecutionState =
     (zeroExecutionState\<lparr>AllocationTokenRequestStartTime := 1000\<rparr>,
      Some (Errorf ResourceManagerFailure ''Got bad allocation result [%s] for token [%s]''),
      [AllocateResourceCall ''prod-1'' ''t1''])"
proof -
  have ns: "composeResourceNamespaceWithClusterPrimaryLabel (demoAmbient ''teamA'')
      strangeStatus = Inr ''prod-1''"
    unfolding strangeStatus_def by (rule demo_namespace)
  have rest: "AllocateResource strangeStatus =
      (\<lambda>ns token. Inr (AllocationStatusOther ''Pending''))"
    "GeneratedName strangeStatus = ''t1''" "Now (demoAmbient ''teamA'') = 1000"
    by (simp_all add: strangeStatus_def demoTask_def demoAmbient_def)
  show ?thesis
    by (simp add: GetAllocationToken_def ns rest Let_def IsZero_def waitingState_def
        zeroExecutionState_def)
qed

text \<open>
  C2, amended: whenever MonitorQuery returns a non-nil error, and whenever KickOffQuery
  fails to read the secret or the query information (its only errors before the backend
  create call, and no call is made), the state returned with the error equals the input
  state. The only other error of KickOffQuery is a failed registration with the cache,
  and it comes with the input state updated to Submitted with the new command id and
  URI; a failed create and a successful registration return no error. GetAllocationToken
  returns the zero ExecutionState with the error when the namespace cannot be computed or
  the allocator fails; when the allocation status is none of granted, exhausted and
  quota exceeded, it returns the zero state with the start time filled in (the input's
  when set, the current time otherwise); a recognised status returns no error.
\<close>

theorem C2_state_returned_with_error:
  "(MonitorQuery tCtx s cache = (s', Some e, calls) \<longrightarrow> s' = s)
   \<and> (SecretManagerGet tCtx (TokenKey cfg) = Inl err \<longrightarrow>
        KickOffQuery amb tCtx s quboleClient cache cfg =
          (s, Some (Wrapf RuntimeFailure err ''Failed to read token from secrets manager''), []))
   \<and> (SecretManagerGet tCtx (TokenKey cfg) = Inr apiKey \<longrightarrow>
      GetQueryInfo amb tCtx = Inl err \<longrightarrow>
        KickOffQuery amb tCtx s quboleClient cache cfg = (s, Some err, []))
   \<and> (SecretManagerGet tCtx (TokenKey cfg) = Inr apiKey \<longrightarrow>
      GetQueryInfo amb tCtx = Inr (query, override, tags, timeoutSec) \<longrightarrow>
      ExecuteHiveCommand quboleClient query timeoutSec
        (getClusterPrimaryLabel amb tCtx override) apiKey tags = Inl err \<longrightarrow>
        fst (snd (KickOffQuery amb tCtx s quboleClient cache cfg)) = None)
   \<and> (SecretManagerGet tCtx (TokenKey cfg) = Inr apiKey \<longrightarrow>
      GetQueryInfo amb tCtx = Inr (query, override, tags, timeoutSec) \<longrightarrow>
      ExecuteHiveCommand quboleClient query timeoutSec
        (getClusterPrimaryLabel amb tCtx override) apiKey tags = Inr d \<longrightarrow>
      cache (GeneratedName tCtx)
        (StateItem
          \<lparr>ItemState = s\<lparr>CommandId := FormatInt (ID d), Phase := PhaseSubmitted,
                           URI := DetailsURI d\<rparr>,
           ItemId = GeneratedName tCtx\<rparr>) = Inl err \<longrightarrow>
        KickOffQuery amb tCtx s quboleClient cache cfg =
          (s\<lparr>CommandId := FormatInt (ID d), Phase := PhaseSubmitted, URI := DetailsURI d\<rparr>,
           Some err,
           [ExecuteHiveCommandCall query timeoutSec (getClusterPrimaryLabel amb tCtx override)
              apiKey tags,
            GetOrCreateCall (GeneratedName tCtx)
              (StateItem
                \<lparr>ItemState = s\<lparr>CommandId := FormatInt (ID d), Phase := PhaseSubmitted,
                                 URI := DetailsURI d\<rparr>,
                 ItemId = GeneratedName tCtx\<rparr>)]))
   \<and> (SecretManagerGet tCtx (TokenKey cfg) = Inr apiKey \<longrightarrow>
      GetQueryInfo amb tCtx = Inr (query, override, tags, timeoutSec) \<longrightarrow>
      ExecuteHiveCommand quboleClient query timeoutSec
        (getClusterPrimaryLabel amb tCtx override) apiKey tags = Inr d \<longrightarrow>
      cache (GeneratedName tCtx)
        (StateItem
          \<lparr>ItemState = s\<lparr>CommandId := FormatInt (ID d), Phase := PhaseSubmitted,
                           URI := DetailsURI d\<rparr>,
           ItemId = GeneratedName tCtx\<rparr>) = Inr cached \<longrightarrow>
        fst (snd (KickOffQuery amb tCtx s quboleClient cache cfg)) = None)
   \<and> (composeResourceNamespaceWithClusterPrimaryLabel amb tCtx = Inl err \<longrightarrow>
        GetAllocationToken amb tCtx s =
          (zeroExecutionState,
           Some (Wrapf ResourceManagerFailure err
             ''Error getting query info when requesting allocation token %s''),
           []))
   \<and> (composeResourceNamespaceWithClusterPrimaryLabel amb tCtx = Inr ns \<longrightarrow>
      AllocateResource tCtx ns (GeneratedName tCtx) = Inl err \<longrightarrow>
        GetAllocationToken amb tCtx s =
          (zeroExecutionState,
           Some (Wrapf ResourceManagerFailure err ''Error requesting allocation token %s''),
           [AllocateResourceCall ns (GeneratedName tCtx)]))
   \<and> (composeResourceNamespaceWithClusterPrimaryLabel amb tCtx = Inr ns \<longrightarrow>
      AllocateResource tCtx ns (GeneratedName tCtx) = Inr status \<longrightarrow>
      status \<noteq> AllocationStatusGranted \<and> status \<noteq> AllocationStatusExhausted
        \<and> status \<noteq> AllocationStatusNamespaceQuotaExceeded \<longrightarrow>
        GetAllocationToken amb tCtx s =
          (zeroExecutionState
             \<lparr>AllocationTokenRequestStartTime :=
                (if IsZero (AllocationTokenRequestStartTime s) then Now amb
                 else AllocationTokenRequestStartTime s)\<rparr>,
           Some (Errorf ResourceManagerFailure
             ''Got bad allocation result [%s] for token [%s]''),
           [AllocateResourceCall ns (GeneratedName tCtx)]))
   \<and> (composeResourceNamespaceWithClusterPrimaryLabel amb tCtx = Inr ns \<longrightarrow>
      AllocateResource tCtx ns (GeneratedName tCtx) = Inr status \<longrightarrow>
      status = AllocationStatusGranted \<or> status = AllocationStatusExhausted
        \<or> status = AllocationStatusNamespaceQuotaExceeded \<longrightarrow>
        fst (snd (GetAllocationToken amb tCtx s)) = None)"
proof -
  have m: "MonitorQuery tCtx s cache = (s', Some e, calls) \<longrightarrow> s' = s"
    by (auto simp add: MonitorQuery_def Let_def split: sum.splits Item.splits)
  have k: "SecretManagerGet tCtx (TokenKey cfg) = Inl err \<longrightarrow>
        KickOffQuery amb tCtx s quboleClient cache cfg =
          (s, Some (Wrapf RuntimeFailure err ''Failed to read token from secrets manager''), [])"
    "SecretManagerGet tCtx (TokenKey cfg) = Inr apiKey \<longrightarrow>
      GetQueryInfo amb tCtx = Inl err \<longrightarrow>
        KickOffQuery amb tCtx s quboleClient cache cfg = (s, Some err, [])"
    "SecretManagerGet tCtx (TokenKey cfg) = Inr apiKey \<longrightarrow>
      GetQueryInfo amb tCtx = Inr (query, override, tags, timeoutSec) \<longrightarrow>
      ExecuteHiveCommand quboleClient query timeoutSec
        (getClusterPrimaryLabel amb tCtx override) apiKey tags = Inl err \<longrightarrow>
        fst (snd (KickOffQuery amb tCtx s quboleClient cache cfg)) = None"
    by (simp_all add: KickOffQuery_def Let_def)
  have r: "SecretManagerGet tCtx (TokenKey cfg) = Inr apiKey \<longrightarrow>
      GetQueryInfo amb tCtx = Inr (query, override, tags, timeoutSec) \<longrightarrow>
      ExecuteHiveCommand quboleClient query timeoutSec
        (getClusterPrimaryLabel amb tCtx override) apiKey tags = Inr d \<longrightarrow>
      cache (GeneratedName tCtx)
        (StateItem
          \<lparr>ItemState = s\<lparr>CommandId := FormatInt (ID d), Phase := PhaseSubmitted,
                           URI := DetailsURI d\<rparr>,
           ItemId = GeneratedName tCtx\<rparr>) = Inl err \<longrightarrow>
        KickOffQuery amb tCtx s quboleClient cache cfg =
          (s\<lparr>CommandId := FormatInt (ID d), Phase := PhaseSubmitted, URI := DetailsURI d\<rparr>,
           Some err,
           [ExecuteHiveCommandCall query timeoutSec (getClusterPrimaryLabel amb tCtx override)
              apiKey tags,
            GetOrCreateCall (GeneratedName tCtx)
              (StateItem
                \<lparr>ItemState = s\<lparr>CommandId := FormatInt (ID d), Phase := PhaseSubmitted,
                                 URI := DetailsURI d\<rparr>,
                 ItemId = GeneratedName tCtx\<rparr>)])"
    "SecretManagerGet tCtx (TokenKey cfg) = Inr apiKey \<longrightarrow>
      GetQueryInfo amb tCtx = Inr (query, override, tags, timeoutSec) \<longrightarrow>
      ExecuteHiveCommand quboleClient query timeoutSec
        (getClusterPrimaryLabel amb tCtx override) apiKey tags = Inr d \<longrightarrow>
      cache (GeneratedName tCtx)
        (StateItem
          \<lparr>ItemState = s\<lparr>CommandId := FormatInt (ID d), Phase := PhaseSubmitted,
                           URI := DetailsURI d\<rparr>,
           ItemId = GeneratedName tCtx\<rparr>) = Inr cached \<longrightarrow>
        fst (snd (KickOffQuery amb tCtx s quboleClient cache cfg)) = None"
    by (simp_all add: KickOffQuery_def Let_def)
  have g: "composeResourceNamespaceWithClusterPrimaryLabel amb tCtx = Inl err \<longrightarrow>
        GetAllocationToken amb tCtx s =
          (zeroExecutionState,
           Some (Wrapf ResourceManagerFailure err
             ''Error getting query info when requesting allocation token %s''),
           [])"
    "composeResourceNamespaceWithClusterPrimaryLabel amb tCtx = Inr ns \<longrightarrow>
      AllocateResource tCtx ns (GeneratedName tCtx) = Inl err \<longrightarrow>
        GetAllocationToken amb tCtx s =
          (zeroExecutionState,
           Some (Wrapf ResourceManagerFailure err ''Error requesting allocation token %s''),
           [AllocateResourceCall ns (GeneratedName tCtx)])"
    "composeResourceNamespaceWithClusterPrimaryLabel amb tCtx = Inr ns \<longrightarrow>
      AllocateResource tCtx ns (GeneratedName tCtx) = Inr status \<longrightarrow>
      status \<noteq> AllocationStatusGranted \<and> status \<noteq> AllocationStatusExhausted
        \<and> status \<noteq> AllocationStatusNamespaceQuotaExceeded \<longrightarrow>
        GetAllocationToken amb tCtx s =
          (zeroExecutionState
             \<lparr>AllocationTokenRequestStartTime :=
                (if IsZero (AllocationTokenRequestStartTime s) then Now amb
                 else AllocationTokenRequestStartTime s)\<rparr>,
           Some (Errorf ResourceManagerFailure
             ''Got bad allocation result [%s] for token [%s]''),
           [AllocateResourceCall ns (GeneratedName tCtx)])"
    "composeResourceNamespaceWithClusterPrimaryLabel amb tCtx = Inr ns \<longrightarrow>
      AllocateResource tCtx ns (GeneratedName tCtx) = Inr status \<longrightarrow>
      status = AllocationStatusGranted \<or> status = AllocationStatusExhausted
        \<or> status = AllocationStatusNamespaceQuotaExceeded \<longrightarrow>
        fst (snd (GetAllocationToken amb tCtx s)) = None"
    by (auto simp add: GetAllocationToken_def Let_def)
  from m k r g show ?thesis by (intro conjI)
qed

theorem C2_state_returned_with_error_witness:
  "MonitorQuery allocatorDown submittedState cacheDown =
     (submittedState,
      Some (Wrapf CacheFailed (External ''cache down'') ''Error when GetOrCreate while monitoring''),
      [GetOrCreateCall ''t1'' (StateItem \<lparr>ItemState = submittedState, ItemId = ''t1''\<rparr>)])
   \<and> KickOffQuery (demoAmbient ''teamA'') secretMissing queuedState created123 cacheDown
        demoConfig =
     (queuedState,
      Some (Wrapf RuntimeFailure (External ''no secret'')
        ''Failed to read token from secrets manager''), [])
   \<and> KickOffQuery (demoAmbient ''teamA'') unreadableTask queuedState created123 cacheDown
        demoConfig =
     (queuedState, Some (External ''template not found''), [])
   \<and> fst (snd (KickOffQuery (demoAmbient ''teamA'')
        (demoTask ''p'' ''d'' (Inr AllocationStatusGranted)) queuedState
        (demoClient (Inl (External ''backend down''))) cacheDown demoConfig)) = None
   \<and> KickOffQuery (demoAmbient ''teamA'') (demoTask ''p'' ''d'' (Inr AllocationStatusGranted))
        queuedState created123 cacheDown demoConfig =
     (queuedState\<lparr>CommandId := FormatInt 123, Phase := PhaseSubmitted, URI := ''u''\<rparr>,
      Some (External ''cache down''),
      [ExecuteHiveCommandCall ''select 1'' 60 ''prod-1'' ''secret'' [''ns:ns''],
       GetOrCreateCall ''t1''
         (StateItem
           \<lparr>ItemState = queuedState\<lparr>CommandId := FormatInt 123, Phase := PhaseSubmitted,
                                     URI := ''u''\<rparr>,
            ItemId = ''t1''\<rparr>)])
   \<and> fst (snd (KickOffQuery (demoAmbient ''teamA'')
        (demoTask ''p'' ''d'' (Inr AllocationStatusGranted)) queuedState created123
        (storeGetOrCreate None emptyStore) demoConfig)) = None
   \<and> GetAllocationToken (demoAmbient ''teamA'') unreadableTask waitingState =
     (zeroExecutionState,
      Some (Wrapf ResourceManagerFailure (External ''template not found'')
        ''Error getting query info when requesting allocation token %s''), [])
   \<and> GetAllocationToken (demoAmbient ''teamA'') allocatorDown waitingState =
     (zeroExecutionState,
      Some (Wrapf ResourceManagerFailure (External ''allocator down'')
        ''Error requesting allocation token %s''),
      [AllocateResourceCall ''prod-1'' ''t1''])
   \<and> GetAllocationToken (demoAmbient ''teamA'') strangeStatus waitingState =
     (zeroExecutionState\<lparr>AllocationTokenRequestStartTime := 5\<rparr>,
      Some (Errorf ResourceManagerFailure ''Got bad allocation result [%s] for token [%s]''),
      [AllocateResourceCall ''prod-1'' ''t1''])
   \<and> fst (snd (GetAllocationToken (demoAmbient ''teamA'')
        (demoTask ''p'' ''d'' (Inr AllocationStatusExhausted)) waitingState)) = None"
proof -
  let ?amb = "demoAmbient ''teamA''"
  let ?tCtx = "demoTask ''p'' ''d'' (Inr AllocationStatusGranted)"
  let ?denied = "demoTask ''p'' ''d'' (Inr AllocationStatusExhausted)"
  let ?down = "demoClient (Inl (External ''backend down''))"
  let ?d = "\<lparr>ID = 123, DetailsURI = ''u''\<rparr>"
  have secret: "SecretManagerGet ?tCtx (TokenKey demoConfig) = Inr ''secret''"
    "SecretManagerGet unreadableTask (TokenKey demoConfig) = Inr ''secret''"
    "SecretManagerGet secretMissing (TokenKey demoConfig) = Inl (External ''no secret'')"
    by (simp_all add: demoTask_def unreadableTask_def secretMissing_def)
  have readable: "GetQueryInfo ?amb ?tCtx = Inr (''select 1'', ''teamA'', [''ns:ns''], 60)"
    by (rule demo_queryInfo)
  have unreadable: "GetQueryInfo ?amb unreadableTask = Inl (External ''template not found'')"
    by (simp add: GetQueryInfo_def unreadableTask_def demoTask_def)
  note info = readable unreadable
  have label: "getClusterPrimaryLabel ?amb ?tCtx ''teamA'' = ''prod-1''"
    by (rule demo_primaryLabel)
  have create: "ExecuteHiveCommand ?down ''select 1'' 60 ''prod-1'' ''secret'' [''ns:ns''] =
      Inl (External ''backend down'')"
    "ExecuteHiveCommand created123 ''select 1'' 60 ''prod-1'' ''secret'' [''ns:ns''] = Inr ?d"
    by (simp_all add: demoClient_def created123_def)
  have register: "cacheDown item_id item = Inl (External ''cache down'')"
    "storeGetOrCreate None emptyStore item_id item = Inr item" for item_id item
    by (simp_all add: cacheDown_def storeGetOrCreate_def emptyStore_def)
  have name: "GeneratedName ?tCtx = ''t1''" "GeneratedName allocatorDown = ''t1''"
    "GeneratedName strangeStatus = ''t1''" "GeneratedName ?denied = ''t1''"
    by (simp_all add: demoTask_def allocatorDown_def strangeStatus_def)
  have ns: "composeResourceNamespaceWithClusterPrimaryLabel ?amb unreadableTask =
      Inl (External ''template not found'')"
    "composeResourceNamespaceWithClusterPrimaryLabel ?amb allocatorDown = Inr ''prod-1''"
    "composeResourceNamespaceWithClusterPrimaryLabel ?amb strangeStatus = Inr ''prod-1''"
    "composeResourceNamespaceWithClusterPrimaryLabel ?amb ?denied = Inr ''prod-1''"
    by (simp_all add: unreadable_namespace demo_namespace allocatorDown_def strangeStatus_def)
  have allocate: "AllocateResource allocatorDown ''prod-1'' ''t1'' =
      Inl (External ''allocator down'')"
    "AllocateResource strangeStatus ''prod-1'' ''t1'' = Inr (AllocationStatusOther ''Pending'')"
    "AllocateResource ?denied ''prod-1'' ''t1'' = Inr AllocationStatusExhausted"
    by (simp_all add: demoTask_def allocatorDown_def strangeStatus_def)
  have start: "AllocationTokenRequestStartTime waitingState = 5" "\<not> IsZero 5"
    by (simp_all add: waitingState_def IsZero_def)
  note facts = secret info label create register name ns allocate start
  show ?thesis
    using C2_state_returned_with_error
        [where tCtx = allocatorDown and s = submittedState and cache = cacheDown
           and s' = submittedState
           and e = "Wrapf CacheFailed (External ''cache down'')
                      ''Error when GetOrCreate while monitoring''"
           and calls = "[GetOrCreateCall ''t1''
                          (StateItem \<lparr>ItemState = submittedState, ItemId = ''t1''\<rparr>)]"]
      C2_state_returned_with_error
        [where tCtx = secretMissing and cfg = demoConfig and err = "External ''no secret''"
           and amb = ?amb and s = queuedState and quboleClient = created123
           and cache = cacheDown]
      C2_state_returned_with_error
        [where tCtx = unreadableTask and cfg = demoConfig and apiKey = "''secret''"
           and err = "External ''template not found''"
           and amb = ?amb and s = queuedState and quboleClient = created123
           and cache = cacheDown]
      C2_state_returned_with_error
        [where tCtx = ?tCtx and cfg = demoConfig and apiKey = "''secret''"
           and query = "''select 1''" and override = "''teamA''" and tags = "[''ns:ns'']"
           and timeoutSec = 60 and err = "External ''backend down''"
           and amb = ?amb and s = queuedState and quboleClient = ?down and cache = cacheDown]
      C2_state_returned_with_error
        [where tCtx = ?tCtx and cfg = demoConfig and apiKey = "''secret''"
           and query = "''select 1''" and override = "''teamA''" and tags = "[''ns:ns'']"
           and timeoutSec = 60 and d = ?d and err = "External ''cache down''"
           and amb = ?amb and s = queuedState and quboleClient = created123
           and cache = cacheDown]
      C2_state_returned_with_error
        [where tCtx = ?tCtx and cfg = demoConfig and apiKey = "''secret''"
           and query = "''select 1''" and override = "''teamA''" and tags = "[''ns:ns'']"
           and timeoutSec = 60 and d = ?d
           and cached = "StateItem
             \<lparr>ItemState = queuedState\<lparr>CommandId := FormatInt 123, Phase := PhaseSubmitted,
                                       URI := ''u''\<rparr>,
              ItemId = ''t1''\<rparr>"
           and amb = ?amb and s = queuedState and quboleClient = created123
           and cache = "storeGetOrCreate None emptyStore"]
      C2_state_returned_with_error
        [where tCtx = unreadableTask and amb = ?amb and s = waitingState
           and err = "External ''template not found''"]
      C2_state_returned_with_error
        [where tCtx = allocatorDown and amb = ?amb and s = waitingState
           and ns = "''prod-1''" and err = "External ''allocator down''"]
      C2_state_returned_with_error
        [where tCtx = strangeStatus and amb = ?amb and s = waitingState
           and ns = "''prod-1''" and status = "AllocationStatusOther ''Pending''"]
      C2_state_returned_with_error
        [where tCtx = ?denied and amb = ?amb and s = waitingState
           and ns = "''prod-1''" and status = AllocationStatusExhausted]
    by (simp add: facts cacheDown_outcome)
qed

section \<open>The kinds of the returned errors\<close>

text \<open>
  Where the errors do carry a kind: all of GetAllocationToken and of MonitorQuery, the
  failed secret read of KickOffQuery, and the failed namespace computation of Finalize.
\<close>

lemma sibling_paths_attach_kinds:
  "(GetAllocationToken amb tCtx s = (s', Some e, calls) \<longrightarrow>
      GetErrorCode e = Some ResourceManagerFailure)
   \<and> (MonitorQuery tCtx s cache = (s', Some e, calls) \<longrightarrow> GetErrorCode e = Some CacheFailed)
   \<and> (SecretManagerGet tCtx (TokenKey cfg) = Inl err \<longrightarrow>
        map_option GetErrorCode (fst (snd (KickOffQuery amb tCtx s quboleClient cache cfg))) =
          Some (Some RuntimeFailure))
   \<and> (GetQueryInfo amb tCtx = Inl err \<longrightarrow>
        map_option GetErrorCode (fst (Finalize amb tCtx s)) = Some (Some ResourceManagerFailure))"
proof -
  have g: "GetAllocationToken amb tCtx s = (s', Some e, calls) \<longrightarrow>
      GetErrorCode e = Some ResourceManagerFailure"
    by (auto simp add: GetAllocationToken_def Let_def split: sum.splits if_splits)
  have m: "MonitorQuery tCtx s cache = (s', Some e, calls) \<longrightarrow> GetErrorCode e = Some CacheFailed"
    by (auto simp add: MonitorQuery_def Let_def split: sum.splits Item.splits)
  have k: "SecretManagerGet tCtx (TokenKey cfg) = Inl err \<longrightarrow>
        map_option GetErrorCode (fst (snd (KickOffQuery amb tCtx s quboleClient cache cfg))) =
          Some (Some RuntimeFailure)"
    by (simp add: KickOffQuery_def Let_def)
  have f: "GetQueryInfo amb tCtx = Inl err \<longrightarrow>
        map_option GetErrorCode (fst (Finalize amb tCtx s)) = Some (Some ResourceManagerFailure)"
    by (simp add: Finalize_def composeResourceNamespaceWithClusterPrimaryLabel_def Let_def)
  from g m k f show ?thesis by (intro conjI)
qed

text \<open>
  C3: every non-nil error returned by the transition functions GetAllocationToken,
  KickOffQuery and MonitorQuery carries one of the taxonomy kinds. KickOffQuery misses
  this at two of its returns. On a Queued task whose template cannot be read it returns
  the reader's error without a kind, while GetAllocationToken wraps the same failure as
  ResourceManagerFailure; and when the registration with the cache fails it returns the
  cache's error without a kind, while MonitorQuery wraps the same failure as CacheFailed.
\<close>

theorem C3_KickOffQuery_returns_errors_without_kind:
  "fst (snd (HandleExecutionState (demoAmbient ''teamA'') unreadableTask queuedState
        created123 cacheDown demoConfig)) = Some (External ''template not found'')
   \<and> GetErrorCode (External ''template not found'') = None
   \<and> fst (snd (GetAllocationToken (demoAmbient ''teamA'') unreadableTask waitingState)) =
        Some (Wrapf ResourceManagerFailure (External ''template not found'')
          ''Error getting query info when requesting allocation token %s'')
   \<and> fst (snd (HandleExecutionState (demoAmbient ''teamA'')
        (demoTask ''p'' ''d'' (Inr AllocationStatusGranted)) queuedState
        created123 cacheDown demoConfig)) = Some (External ''cache down'')
   \<and> GetErrorCode (External ''cache down'') = None
   \<and> fst (snd (MonitorQuery allocatorDown submittedState cacheDown)) =
        Some (Wrapf CacheFailed (External ''cache down'')
          ''Error when GetOrCreate while monitoring'')"
proof -
  have phase: "Phase queuedState = PhaseQueued"
    by (simp add: queuedState_def)
  show ?thesis
    by (simp add: HandleExecutionState_def phase Phase_defs unreadable_outcome
        registrationFails_outcome unreadable_allocation_outcome cacheDown_outcome)
qed

section \<open>Terminal states of the reachable worlds\<close>

lemma GetAllocationToken_step:
  "GetAllocationToken amb tCtx s = (s', err, calls) \<Longrightarrow>
   launched s' \<and> storeAfter failure store calls = store"
  by (auto simp add: GetAllocationToken_def Let_def zeroExecutionState_def launched_def
      Phase_defs split: sum.splits if_splits)

lemma KickOffQuery_step:
  "KickOffQuery amb tCtx s quboleClient (storeGetOrCreate failure store) cfg = (s', err, calls) \<Longrightarrow>
   Phase s = PhaseQueued \<Longrightarrow> tracked (GeneratedName tCtx) store \<Longrightarrow>
   launched s' \<and> tracked (GeneratedName tCtx) (storeAfter failure store calls)"
  by (auto simp add: KickOffQuery_def Let_def launched_def tracked_def Phase_defs
      FormatInt_nonempty split: sum.splits prod.splits if_splits)

lemma MonitorQuery_step:
  "MonitorQuery tCtx s (storeGetOrCreate failure store) = (s', err, calls) \<Longrightarrow>
   Phase s = PhaseSubmitted \<Longrightarrow> launched s \<Longrightarrow> tracked (GeneratedName tCtx) store \<Longrightarrow>
   launched s' \<and> tracked (GeneratedName tCtx) (storeAfter failure store calls)"
  by (auto simp add: MonitorQuery_def Let_def launched_def tracked_def storeGetOrCreate_def
      split: sum.splits Item.splits option.splits if_splits)

lemma Handle_step:
  assumes "HandleExecutionState amb tCtx s quboleClient (storeGetOrCreate failure store) cfg =
      (s', err, calls)"
    and "launched s" and "tracked (GeneratedName tCtx) store"
  shows "launched s' \<and> tracked (GeneratedName tCtx) (storeAfter failure store calls)"
proof -
  consider (notStarted) "Phase s = PhaseNotStarted" | (queued) "Phase s = PhaseQueued"
    | (submitted) "Phase s = PhaseSubmitted"
    | (terminal) "Phase s = PhaseQuerySucceeded \<or> Phase s = PhaseQueryFailed"
    | (unknown) "Phase s \<noteq> PhaseNotStarted" "Phase s \<noteq> PhaseQueued"
        "Phase s \<noteq> PhaseSubmitted" "Phase s \<noteq> PhaseQuerySucceeded"
        "Phase s \<noteq> PhaseQueryFailed"
    by blast
  then show ?thesis
  proof cases
    case notStarted
    with assms(1) have "GetAllocationToken amb tCtx s = (s', err, calls)"
      by (simp add: HandleExecutionState_def)
    from GetAllocationToken_step [OF this, of failure store] assms(3) show ?thesis by simp
  next
    case queued
    with assms(1) have "KickOffQuery amb tCtx s quboleClient (storeGetOrCreate failure store) cfg
        = (s', err, calls)"
      by (simp add: HandleExecutionState_def Phase_defs)
    from KickOffQuery_step [OF this queued assms(3)] show ?thesis .
  next
    case submitted
    with assms(1) have "MonitorQuery tCtx s (storeGetOrCreate failure store) = (s', err, calls)"
      by (simp add: HandleExecutionState_def Phase_defs)
    from MonitorQuery_step [OF this submitted assms(2,3)] show ?thesis .
  next
    case terminal
    with assms(1) have "s' = s \<and> calls = []"
      by (auto simp add: HandleExecutionState_def Phase_defs)
    with assms(2,3) show ?thesis by simp
  next
    case unknown
    with assms(1) have "s' = zeroExecutionState \<and> calls = []"
      by (auto simp add: HandleExecutionState_def)
    with assms(3) show ?thesis
      by (simp add: launched_def zeroExecutionState_def Phase_defs)
  qed
qed

lemma reachable_invariant:
  "reachable uid w \<Longrightarrow> launched (Persisted w) \<and> tracked uid (CacheStore w)"
proof (induction rule: reachable.induct)
  case (initial store)
  then show ?case
    by (simp add: launched_def tracked_def zeroExecutionState_def Phase_defs)
next
  case (tick w tCtx amb quboleClient failure cfg s' err calls)
  from Handle_step [OF tick.hyps(3)] tick.IH tick.hyps(2) show ?case by simp
next
  case (refresh w old new)
  then show ?case by (auto simp add: tracked_def refreshed_def)
qed

subsection \<open>The run of the scenario\<close>

lemma reach_initial: "reachable ''t1'' (demoWorld zeroExecutionState emptyStore)"
  unfolding demoWorld_def by (rule reachable.initial) (simp add: emptyStore_def)

lemma tick_granted:
  "HandleExecutionState (demoAmbient ''teamA'') (demoTask ''p'' ''d'' (Inr AllocationStatusGranted))
     zeroExecutionState created123 (storeGetOrCreate None emptyStore) demoConfig =
   (queuedState, None, [AllocateResourceCall ''prod-1'' ''t1''])"
proof -
  let ?tCtx = "demoTask ''p'' ''d'' (Inr AllocationStatusGranted)"
  have ns: "composeResourceNamespaceWithClusterPrimaryLabel (demoAmbient ''teamA'') ?tCtx =
      Inr ''prod-1''"
    by (rule demo_namespace)
  have rest: "AllocateResource ?tCtx = (\<lambda>ns token. Inr AllocationStatusGranted)"
    "GeneratedName ?tCtx = ''t1''" "Now (demoAmbient ''teamA'') = 1000"
    by (simp_all add: demoTask_def demoAmbient_def)
  show ?thesis
    by (simp add: HandleExecutionState_def GetAllocationToken_def ns rest Let_def
        zeroExecutionState_def queuedState_def Phase_defs IsZero_def)
qed

lemma reach_queued: "reachable ''t1'' (demoWorld queuedState emptyStore)"
proof -
  have "reachable ''t1''
      \<lparr>Persisted = queuedState,
       CacheStore = storeAfter None (CacheStore (demoWorld zeroExecutionState emptyStore))
         [AllocateResourceCall ''prod-1'' ''t1'']\<rparr>"
    by (rule reachable.tick [OF reach_initial,
          where tCtx = "demoTask ''p'' ''d'' (Inr AllocationStatusGranted)"
          and amb = "demoAmbient ''teamA''" and quboleClient = created123
          and failure = None and cfg = demoConfig and err = None])
       (simp_all add: demoWorld_def tick_granted, simp add: demoTask_def)
  then show ?thesis by (simp add: demoWorld_def)
qed

lemma tick_created:
  "HandleExecutionState (demoAmbient ''teamA'') (demoTask ''p'' ''d'' (Inr AllocationStatusGranted))
     queuedState created123 (storeGetOrCreate None emptyStore) demoConfig =
   (submittedState, None,
    [ExecuteHiveCommandCall ''select 1'' 60 ''prod-1'' ''secret'' [''ns:ns''],
     GetOrCreateCall ''t1'' (StateItem \<lparr>ItemState = submittedState, ItemId = ''t1''\<rparr>)])"
proof -
  let ?tCtx = "demoTask ''p'' ''d'' (Inr AllocationStatusGranted)"
  have rest: "SecretManagerGet ?tCtx = (\<lambda>key. Inr ''secret'')" "GeneratedName ?tCtx = ''t1''"
    "ExecuteHiveCommand created123 =
       (\<lambda>query timeoutSec label apiKey tags. Inr \<lparr>ID = 123, DetailsURI = ''u''\<rparr>)"
    "Phase queuedState = PhaseQueued"
    by (simp_all add: demoTask_def demoClient_def created123_def queuedState_def)
  show ?thesis
    by (simp add: HandleExecutionState_def KickOffQuery_def demo_queryInfo demo_primaryLabel rest
        Let_def Phase_defs FormatInt_123 submittedState_def storeGetOrCreate_def emptyStore_def)
qed

lemma reach_submitted: "reachable ''t1'' (demoWorld submittedState (cachedStore submittedState))"
proof -
  have "reachable ''t1''
      \<lparr>Persisted = submittedState,
       CacheStore = storeAfter None (CacheStore (demoWorld queuedState emptyStore))
         [ExecuteHiveCommandCall ''select 1'' 60 ''prod-1'' ''secret'' [''ns:ns''],
          GetOrCreateCall ''t1'' (StateItem \<lparr>ItemState = submittedState, ItemId = ''t1''\<rparr>)]\<rparr>"
    by (rule reachable.tick [OF reach_queued,
          where tCtx = "demoTask ''p'' ''d'' (Inr AllocationStatusGranted)"
          and amb = "demoAmbient ''teamA''" and quboleClient = created123
          and failure = None and cfg = demoConfig and err = None])
       (simp_all add: demoWorld_def tick_created, simp add: demoTask_def)
  then show ?thesis by (simp add: demoWorld_def cachedStore_def emptyStore_def)
qed

lemma reach_refreshed: "reachable ''t1'' (demoWorld submittedState (cachedStore succeededState))"
proof -
  have "reachable ''t1'' ((demoWorld submittedState (cachedStore submittedState))
      \<lparr>CacheStore := (CacheStore (demoWorld submittedState (cachedStore submittedState)))
         (''t1'' := Some (StateItem \<lparr>ItemState = succeededState, ItemId = ''t1''\<rparr>))\<rparr>)"
    by (rule reachable.refresh [OF reach_submitted,
          where old = "\<lparr>ItemState = submittedState, ItemId = ''t1''\<rparr>"])
       (simp_all add: demoWorld_def cachedStore_def refreshed_def succeededState_def)
  then show ?thesis by (simp add: demoWorld_def cachedStore_def)
qed

lemma tick_monitored:
  "HandleExecutionState (demoAmbient ''teamA'') (demoTask ''p'' ''d'' (Inr AllocationStatusGranted))
     submittedState created123 (storeGetOrCreate None (cachedStore succeededState)) demoConfig =
   (succeededState, None,
    [GetOrCreateCall ''t1'' (StateItem \<lparr>ItemState = submittedState, ItemId = ''t1''\<rparr>)])"
proof -
  let ?tCtx = "demoTask ''p'' ''d'' (Inr AllocationStatusGranted)"
  have rest: "GeneratedName ?tCtx = ''t1''" "Phase submittedState = PhaseSubmitted"
    by (simp_all add: demoTask_def submittedState_def)
  show ?thesis
    by (simp add: HandleExecutionState_def MonitorQuery_def rest Let_def Phase_defs
        storeGetOrCreate_def cachedStore_def)
qed

lemma reach_succeeded: "reachable ''t1'' (demoWorld succeededState (cachedStore succeededState))"
proof -
  have "reachable ''t1''
      \<lparr>Persisted = succeededState,
       CacheStore = storeAfter None (CacheStore (demoWorld submittedState (cachedStore succeededState)))
         [GetOrCreateCall ''t1'' (StateItem \<lparr>ItemState = submittedState, ItemId = ''t1''\<rparr>)]\<rparr>"
    by (rule reachable.tick [OF reach_refreshed,
          where tCtx = "demoTask ''p'' ''d'' (Inr AllocationStatusGranted)"
          and amb = "demoAmbient ''teamA''" and quboleClient = created123
          and failure = None and cfg = demoConfig and err = None])
       (simp_all add: demoWorld_def tick_monitored, simp add: demoTask_def)
  then show ?thesis by (simp add: demoWorld_def cachedStore_def)
qed

text \<open>
  C4: in every world reachable from the initial NotStarted state by iterating
  HandleExecutionState (with the cache refreshed in between), if the phase is Succeeded
  or Failed then the command id is a non-empty string, and HandleExecutionState applied
  to that state returns exactly the same state with a nil error, whatever its
  surroundings, and makes no call.
\<close>

theorem C4_terminal_states_fixed:
  "reachable uid w \<Longrightarrow>
   Phase (Persisted w) = PhaseQuerySucceeded \<or> Phase (Persisted w) = PhaseQueryFailed \<Longrightarrow>
   CommandId (Persisted w) \<noteq> []
   \<and> HandleExecutionState amb tCtx (Persisted w) quboleClient cache cfg = (Persisted w, None, [])"
  using reachable_invariant [of uid w]
  by (auto simp add: launched_def HandleExecutionState_def Phase_defs)

theorem C4_terminal_states_witness:
  "reachable ''t1'' (demoWorld succeededState (cachedStore succeededState))
   \<and> Phase succeededState = PhaseQuerySucceeded
   \<and> CommandId succeededState = ''123''
   \<and> HandleExecutionState (demoAmbient ''teamA'') allocatorDown succeededState
        (demoClient (Inl (External ''backend down''))) cacheDown demoConfig =
      (succeededState, None, [])"
proof -
  have phase: "Phase (Persisted (demoWorld succeededState (cachedStore succeededState))) =
      PhaseQuerySucceeded
    \<or> Phase (Persisted (demoWorld succeededState (cachedStore succeededState))) =
      PhaseQueryFailed"
    by (simp add: demoWorld_def succeededState_def)
  have persisted: "Persisted (demoWorld succeededState (cachedStore succeededState)) =
      succeededState"
    by (simp add: demoWorld_def)
  have fields: "Phase succeededState = PhaseQuerySucceeded" "CommandId succeededState = ''123''"
    by (simp_all add: succeededState_def submittedState_def)
  show ?thesis
    using C4_terminal_states_fixed [OF reach_succeeded phase,
        where amb = "demoAmbient ''teamA''" and tCtx = allocatorDown
          and quboleClient = "demoClient (Inl (External ''backend down''))"
          and cache = cacheDown and cfg = demoConfig]
      reach_succeeded
    by (simp add: persisted fields)
qed

end
